theory Spec2Isabelle
  imports Main "HOL-Library.AList"
begin

section \<open>JavaScript values\<close>

text \<open>
  The values that flow through the schema parser and the REST layer are plain data:
  initial values handed to \<open>create\<close>, stored entities, query-string parameters.
  Numbers are modelled as \<open>NaN\<close> or a whole number; the code under study only
  tests them for truthiness and \<open>NaN\<close>-ness and copies them, it never calculates
  with them (negative zero is falsy exactly like \<open>Fin 0\<close>). Functions, symbols and
  bigints do not occur as data and are left out.

  An object is a plain object, as an object literal or a parsed JSON body gives it: the
  list of its own enumerable properties in \<open>Object.entries\<close> order, with
  \<open>Object.prototype\<close> as its prototype. Two reads of the code use a name that the
  schema does not choose, and there the inherited members are modelled: the read of
  \<open>constructor\<close> in line 60 of the parser, and the lookup \<open>declaration[key]\<close> of
  \<open>getFilters\<close>, whose key comes from the query string. Every other read uses the name
  of a schema field; the field names of a schema are assumed not to be names of members
  of \<open>Object.prototype\<close>, so these reads see own properties only. The built-in
  properties of strings and arrays (\<open>length\<close>, indices) are not modelled.
\<close>

datatype jsnum = NaN | Fin int

datatype jsval =
    JUndefined
  | JNull
  | JBool bool
  | JNum jsnum
  | JStr string
  | JDate int
  | JArr "jsval list"
  | JObj "(string \<times> jsval) list"

text \<open>\<open>!!v\<close>, the condition of \<open>v && ...\<close> and of \<open>v || ...\<close>.\<close>

fun truthy :: "jsval \<Rightarrow> bool" where
  "truthy JUndefined = False"
| "truthy JNull = False"
| "truthy (JBool b) = b"
| "truthy (JNum n) = (n \<noteq> NaN \<and> n \<noteq> Fin 0)"
| "truthy (JStr s) = (s \<noteq> [])"
| "truthy (JDate t) = True"
| "truthy (JArr vs) = True"
| "truthy (JObj kvs) = True"

text \<open>\<open>Array.isArray(v)\<close>.\<close>

fun isArray :: "jsval \<Rightarrow> bool" where
  "isArray (JArr vs) = True"
| "isArray v = False"

text \<open>
  The elements of an array and the \<open>Object.entries\<close> of an object; each is only
  applied to a value that passed the matching test (\<open>Array.isArray\<close>, respectively
  \<open>isInternalEntity\<close>).
\<close>

fun elements :: "jsval \<Rightarrow> jsval list" where
  "elements (JArr vs) = vs"
| "elements v = []"

fun entries :: "jsval \<Rightarrow> (string \<times> jsval) list" where
  "entries (JObj kvs) = kvs"
| "entries v = []"

text \<open>
  The names of the members of \<open>Object.prototype\<close>, which every plain object inherits.
  All of them are functions, but \<open>__proto__\<close>, which reads as the prototype object
  itself: each is truthy.
\<close>

definition objectPrototypeKeys :: "string list" where
  "objectPrototypeKeys =
     [''constructor'', ''__defineGetter__'', ''__defineSetter__'', ''hasOwnProperty'',
      ''__lookupGetter__'', ''__lookupSetter__'', ''isPrototypeOf'',
      ''propertyIsEnumerable'', ''toString'', ''valueOf'', ''__proto__'',
      ''toLocaleString'']"

text \<open>
  A computed member access \<open>o[k]\<close> turns its key into a property name first:
  \<open>o[undefined]\<close> reads the property called \<open>undefined\<close>.
\<close>

definition propertyKey :: "string option \<Rightarrow> string" where
  "propertyKey k = (case k of None \<Rightarrow> ''undefined'' | Some s \<Rightarrow> s)"

section \<open>The schema parser (\<open>parseModelDeclaration\<close>)\<close>

datatype error =
    MultiplePrimaryKeys string
    \<comment> \<open>\<open>Error('Failed to parse model declaration for "M": cannot specify more than
        one primary key for a model.')\<close>, carrying the model name \<open>M\<close>\<close>
  | RelationWithoutValue string string
    \<comment> \<open>\<open>Error('Failed to set "M.k" as its a relational property with no value.')\<close>,
        carrying the model name and the field name\<close>
  | TypeError
    \<comment> \<open>the run-time error of reading a property of \<open>null\<close> or \<open>undefined\<close>, or of
        \<open>'k' in null\<close>\<close>
  | ResolverError string
    \<comment> \<open>whatever \<open>findPrimaryKey\<close> throws, identified by its message\<close>

text \<open>
  \<open>entityRef[relationPrimarykey]\<close>: reading a property throws on \<open>null\<close> and
  \<open>undefined\<close>, yields the own property of an object, and \<open>undefined\<close> where there
  is none.
\<close>

fun getProp :: "jsval \<Rightarrow> string \<Rightarrow> error + jsval" where
  "getProp JUndefined k = Inl TypeError"
| "getProp JNull k = Inl TypeError"
| "getProp (JObj kvs) k = Inr (case map_of kvs k of None \<Rightarrow> JUndefined | Some v \<Rightarrow> v)"
| "getProp v k = Inr JUndefined"

text \<open>
  \<open>v.constructor.name\<close>, for a value \<open>v\<close> that is neither \<open>undefined\<close> nor
  \<open>null\<close>. A plain object with an own property \<open>constructor\<close> yields the
  \<open>name\<close> of that property's value, a read that throws when the value is
  \<open>null\<close> or \<open>undefined\<close>; every other value inherits its constructor, a
  built-in function, whose \<open>name\<close> is the name of the built-in.
\<close>

fun constructorName :: "jsval \<Rightarrow> error + jsval" where
  "constructorName JUndefined = Inl TypeError"
| "constructorName JNull = Inl TypeError"
| "constructorName (JBool b) = Inr (JStr ''Boolean'')"
| "constructorName (JNum n) = Inr (JStr ''Number'')"
| "constructorName (JStr s) = Inr (JStr ''String'')"
| "constructorName (JDate t) = Inr (JStr ''Date'')"
| "constructorName (JArr vs) = Inr (JStr ''Array'')"
| "constructorName (JObj kvs) =
     (case map_of kvs ''constructor'' of
        None \<Rightarrow> Inr (JStr ''Object'')
      | Some c \<Rightarrow> getProp c ''name'')"

text \<open>
  The test of lines 56-61 of the parser:
  \<open>typeof v === 'string' || typeof v === 'number' || typeof v === 'boolean' ||
  v?.constructor.name === 'Date'\<close>. The three \<open>typeof\<close> tests come first and read
  no property; \<open>?.\<close> yields \<open>undefined\<close> on \<open>undefined\<close> and \<open>null\<close> and
  guards nothing else, so the read of \<open>name\<close> can throw.
\<close>

fun isPlainValue :: "jsval \<Rightarrow> error + bool" where
  "isPlainValue (JStr s) = Inr True"
| "isPlainValue (JNum n) = Inr True"
| "isPlainValue (JBool b) = Inr True"
| "isPlainValue JUndefined = Inr False"
| "isPlainValue JNull = Inr False"
| "isPlainValue v =
     (case constructorName v of
        Inl e \<Rightarrow> Inl e
      | Inr n \<Rightarrow> Inr (n = JStr ''Date''))"

datatype RelationKind = OneOf | ManyOf

text \<open>
  A field of a model declaration is one of three things, told apart by
  \<open>'isPrimaryKey' in valueGetter\<close> and \<open>'kind' in valueGetter\<close>: a primary-key
  descriptor with its \<open>getValue\<close> generator, a relation descriptor
  \<open>{ kind, modelName, unique }\<close>, or a bare generator function. A generator takes no
  argument and is called at most once per field and parse, so it is represented by the
  value that call yields.
\<close>

datatype descriptor =
    PrimaryKey jsval
  | Relation RelationKind string bool
  | ValueGetter jsval

text \<open>\<open>'isPrimaryKey' in valueGetter\<close> and \<open>'kind' in valueGetter\<close>.\<close>

fun isPrimaryKeyField :: "descriptor \<Rightarrow> bool" where
  "isPrimaryKeyField (PrimaryKey getValue) = True"
| "isPrimaryKeyField d = False"

fun isRelationField :: "descriptor \<Rightarrow> bool" where
  "isRelationField (Relation k m u) = True"
| "isRelationField d = False"

type_synonym ModelDeclaration = "(string \<times> descriptor) list"

type_synonym ModelDictionary = "(string \<times> ModelDeclaration) list"

record EntityRef =
  ref_type :: string
  ref_primaryKey :: "string option"
  ref_nodeId :: jsval

record Relation =
  kind :: RelationKind
  modelName :: string
  unique :: bool
  refs :: "EntityRef list"

record ParsedModelDeclaration =
  primaryKey :: "string option"
  properties :: "(string \<times> jsval) list"
  relations :: "(string \<times> Relation) list"

text \<open>
  Modelled from the spec: \<open>utils/invariant\<close> is not among the sources. The parser calls
  \<open>invariant(!!acc.primaryKey, message)\<close> and, in the spec's words, must "fail if a
  primary key was already assigned earlier in this parse": \<open>invariant\<close> throws the
  error with the given message when its first argument is true.
\<close>

definition invariant :: "bool \<Rightarrow> error \<Rightarrow> error + unit" where
  "invariant violated e = (if violated then Inl e else Inr ())"

text \<open>\<open>!!acc.primaryKey\<close>: the field name is a string, or undefined while unset.\<close>

definition truthyKey :: "string option \<Rightarrow> bool" where
  "truthyKey k = (case k of None \<Rightarrow> False | Some s \<Rightarrow> s \<noteq> [])"

text \<open>\<open>initialValues?.[key]\<close>.\<close>

definition exactValueOf :: "(string \<times> jsval) list option \<Rightarrow> string \<Rightarrow> jsval" where
  "exactValueOf initialValues key =
     (case initialValues of
        None \<Rightarrow> JUndefined
      | Some ivs \<Rightarrow> (case map_of ivs key of None \<Rightarrow> JUndefined | Some v \<Rightarrow> v))"

text \<open>
  \<open>exactValue.map(entityRef => ({ __type, __primaryKey, __nodeId: entityRef[pk] }))\<close>,
  left to right; the first element whose property read throws ends the parse.
\<close>

fun refsOf :: "string \<Rightarrow> string option \<Rightarrow> jsval list \<Rightarrow> error + EntityRef list" where
  "refsOf m pk [] = Inr []"
| "refsOf m pk (entityRef # rest) =
     (case getProp entityRef (propertyKey pk) of
        Inl e \<Rightarrow> Inl e
      | Inr nodeId \<Rightarrow>
          (case refsOf m pk rest of
             Inl e \<Rightarrow> Inl e
           | Inr rs \<Rightarrow> Inr (\<lparr>ref_type = m, ref_primaryKey = pk, ref_nodeId = nodeId\<rparr> # rs)))"

text \<open>\<open>relationDefinition.modelName\<close>: undefined unless the field is a relation.\<close>

fun targetModel :: "descriptor \<Rightarrow> string option" where
  "targetModel (Relation k m u) = Some m"
| "targetModel d = None"

text \<open>
  The callback of the \<open>reduce\<close> over \<open>Object.entries(declaration)\<close> (lines 39-151).
  \<open>findPrimaryKey\<close> is imported from a file that is not among the sources, so the
  resolver is a parameter: it receives \<open>dictionary[relationDefinition.modelName]\<close>
  (undefined when the dictionary has no such model) and either throws (\<open>Inl\<close> of
  the message) or returns a field name or undefined (the \<open>!\<close> after the call is
  erased at run time).
  \<open>relationDefinition\<close> is \<open>declaration[key]\<close>, the entry's own value, and is always
  truthy, so \<open>exactValue && relationDefinition\<close> is the truthiness of \<open>exactValue\<close>.
  A primary-key field returns at line 53 and never reaches the final \<open>valueGetter()\<close>,
  which, on a descriptor object, would be a call of something that is no function.
  The calls of \<open>log\<close> are not modelled; the one of line 110 builds a string from
  \<open>entityRef.__type\<close> and the referenced key value.
\<close>

definition parseField ::
  "(ModelDeclaration option \<Rightarrow> string + string option) \<Rightarrow> ModelDictionary \<Rightarrow> string \<Rightarrow>
   (string \<times> jsval) list option \<Rightarrow> ParsedModelDeclaration \<Rightarrow> string \<times> descriptor \<Rightarrow>
   error + ParsedModelDeclaration" where
  "parseField findPk dictionary model initialValues acc entry =
     (let key = fst entry; valueGetter = snd entry;
          exactValue = exactValueOf initialValues key
      in case valueGetter of
           PrimaryKey getValue \<Rightarrow>
             (case invariant (truthyKey (primaryKey acc)) (MultiplePrimaryKeys model) of
                Inl e \<Rightarrow> Inl e
              | Inr u \<Rightarrow>
                  Inr (acc\<lparr>primaryKey := Some key,
                           properties := AList.update key
                             (if truthy exactValue then exactValue else getValue)
                             (properties acc)\<rparr>))
         | _ \<Rightarrow>
             (case isPlainValue exactValue of
                Inl e \<Rightarrow> Inl e
              | Inr True \<Rightarrow>
                  Inr (acc\<lparr>properties := AList.update key exactValue (properties acc)\<rparr>)
              | Inr False \<Rightarrow>
                  if truthy exactValue then
                    (case findPk (map_of dictionary (propertyKey (targetModel valueGetter))) of
                       Inl msg \<Rightarrow> Inl (ResolverError msg)
                     | Inr relationPrimarykey \<Rightarrow>
                         (case valueGetter of
                            Relation k m u \<Rightarrow>
                              if isArray exactValue \<and> k = ManyOf then
                                (case refsOf m relationPrimarykey (elements exactValue) of
                                   Inl e \<Rightarrow> Inl e
                                 | Inr rs \<Rightarrow>
                                     Inr (acc\<lparr>relations := AList.update key
                                       \<lparr>kind = ManyOf, modelName = m, unique = u, refs = rs\<rparr>
                                       (relations acc)\<rparr>))
                              else if \<not> isArray exactValue \<and> k = OneOf then
                                (case getProp exactValue (propertyKey relationPrimarykey) of
                                   Inl e \<Rightarrow> Inl e
                                 | Inr nodeId \<Rightarrow>
                                     Inr (acc\<lparr>relations := AList.update key
                                       \<lparr>kind = OneOf, modelName = m, unique = u,
                                        refs = [\<lparr>ref_type = m,
                                                 ref_primaryKey = relationPrimarykey,
                                                 ref_nodeId = nodeId\<rparr>]\<rparr>
                                       (relations acc)\<rparr>))
                              else
                                Inr (acc\<lparr>properties :=
                                       AList.update key exactValue (properties acc)\<rparr>)
                          | _ \<Rightarrow>
                              Inr (acc\<lparr>properties :=
                                     AList.update key exactValue (properties acc)\<rparr>)))
                  else
                    (case valueGetter of
                       Relation k m u \<Rightarrow> Inl (RelationWithoutValue model key)
                     | ValueGetter generated \<Rightarrow>
                         Inr (acc\<lparr>properties :=
                                AList.update key generated (properties acc)\<rparr>)
                     | PrimaryKey getValue \<Rightarrow> Inl TypeError)))"

text \<open>
  \<open>Array.prototype.reduce\<close> with a callback that may throw: the fields are visited in
  order and the first failure ends the parse.
\<close>

fun reduceFields ::
  "('a \<Rightarrow> 'b \<Rightarrow> 'e + 'a) \<Rightarrow> 'a \<Rightarrow> 'b list \<Rightarrow> 'e + 'a" where
  "reduceFields step acc [] = Inr acc"
| "reduceFields step acc (x # xs) =
     (case step acc x of Inl e \<Rightarrow> Inl e | Inr acc' \<Rightarrow> reduceFields step acc' xs)"

definition emptyParse :: ParsedModelDeclaration where
  "emptyParse = \<lparr>primaryKey = None, properties = [], relations = []\<rparr>"

definition parseModelDeclaration ::
  "(ModelDeclaration option \<Rightarrow> string + string option) \<Rightarrow> ModelDictionary \<Rightarrow> string \<Rightarrow>
   ModelDeclaration \<Rightarrow> (string \<times> jsval) list option \<Rightarrow> error + ParsedModelDeclaration" where
  "parseModelDeclaration findPk dictionary model declaration initialValues =
     reduceFields (parseField findPk dictionary model initialValues) emptyParse declaration"

text \<open>
  Modelled from the spec: \<open>utils/findPrimaryKey\<close> is not among the sources. In the
  spec's words the primary-key resolver, "given a model schema, returns the name of the
  field whose descriptor is flagged primary key, or fails (NoPrimaryKey) if none is
  flagged"; on an undefined schema it is taken to fail as well. The theorems about the
  parser hold for every resolver; this one serves to run the parser on concrete inputs.
\<close>

definition findPrimaryKey :: "ModelDeclaration option \<Rightarrow> string + string option" where
  "findPrimaryKey declaration =
     (case declaration of
        None \<Rightarrow> Inl ''NoPrimaryKey''
      | Some schema \<Rightarrow>
          (case filter (\<lambda>f. isPrimaryKeyField (snd f)) schema of
             [] \<Rightarrow> Inl ''NoPrimaryKey''
           | f # fs \<Rightarrow> Inr (Some (fst f))))"

section \<open>The REST layer (\<open>generateRestHandlers\<close>)\<close>

subsection \<open>Failures and response codes\<close>

text \<open>
  \<open>HTTPErrorType\<close> is declared in the file (lines 15-17). \<open>OperationErrorType\<close> is
  imported from \<open>errors/OperationError\<close>, which is not among the sources; the handlers
  and the tests name its members \<open>EntityNotFound\<close> and \<open>DuplicatePrimaryKey\<close>, and
  \<open>OtherOperationError\<close> stands for any further member. The run-time values of the
  members of the two enumerations are taken to be pairwise different, so that
  \<open>ErrorType = { ...HTTPErrorType, ...OperationErrorType }\<close> keeps every member.
\<close>

datatype HTTPErrorType = BadRequest

datatype OperationErrorType = EntityNotFound | DuplicatePrimaryKey | OtherOperationError

text \<open>
  What a handler can throw and \<open>withErrors\<close> catches: an \<open>OperationError\<close> of the
  store, the \<open>HTTPError\<close> of \<open>getFilters\<close> (kept with the model name and the
  offending key of its message), or anything else, which has no \<open>type\<close> the switch
  knows (a plain \<open>Error\<close> of the parser, a \<open>TypeError\<close>).
\<close>

datatype thrown =
    OperationError OperationErrorType
  | HTTPError HTTPErrorType string string
  | OtherError

fun getResponseStatusByErrorType :: "thrown \<Rightarrow> nat" where
  "getResponseStatusByErrorType (OperationError EntityNotFound) = 404"
| "getResponseStatusByErrorType (OperationError DuplicatePrimaryKey) = 409"
| "getResponseStatusByErrorType (HTTPError BadRequest m k) = 400"
| "getResponseStatusByErrorType e = 500"

subsection \<open>Query-string filters (\<open>getFilters\<close>)\<close>

text \<open>
  \<open>URLSearchParams\<close> is the list of the query string's name-value pairs, in order,
  repeated names included. \<open>get(name)\<close> is the first value of that name, or null.
\<close>

type_synonym URLSearchParams = "(string \<times> string) list"

definition searchParams_get :: "URLSearchParams \<Rightarrow> string \<Rightarrow> string option" where
  "searchParams_get searchParams name = map_of searchParams name"

datatype QueryFor = Equals string

type_synonym QuerySelectorWhere = "(string \<times> QueryFor) list"

definition paginationKeys :: "string list" where
  "paginationKeys = [''cursor'', ''skip'', ''take'']"

text \<open>
  The truthiness of \<open>declaration[key]\<close> (line 90), for a key of any origin. The
  schema's own descriptors are objects and functions, all truthy, and where the schema
  has no such field the read finds the member of \<open>Object.prototype\<close> of that name,
  if there is one, which is truthy too.
\<close>

definition declarationMember :: "ModelDeclaration \<Rightarrow> string \<Rightarrow> bool" where
  "declarationMember declaration key =
     (map_of declaration key \<noteq> None \<or> key \<in> set objectPrototypeKeys)"

text \<open>
  \<open>filters[key] = { equals: value }\<close> (lines 91-93) on the plain object \<open>filters\<close>.
  The assignment creates or replaces the own property \<open>key\<close>, but for the key
  \<open>__proto__\<close>: that one runs the setter inherited from \<open>Object.prototype\<close>, which
  replaces the prototype of \<open>filters\<close> and leaves its own properties as they are.
\<close>

definition assignFilter ::
  "QuerySelectorWhere \<Rightarrow> string \<Rightarrow> QueryFor \<Rightarrow> QuerySelectorWhere" where
  "assignFilter filters key q =
     (if key = ''__proto__'' then filters else AList.update key q filters)"

text \<open>The callback of \<open>searchParams.forEach\<close> (lines 88-100).\<close>

definition filterParam ::
  "string \<Rightarrow> ModelDeclaration \<Rightarrow> QuerySelectorWhere \<Rightarrow> string \<times> string \<Rightarrow>
   thrown + QuerySelectorWhere" where
  "filterParam model declaration filters param =
     (let key = fst param; value = snd param
      in if key \<in> set paginationKeys then Inr filters
         else if declarationMember declaration key then
           Inr (assignFilter filters key (Equals value))
         else Inl (HTTPError BadRequest model key))"

definition getFilters ::
  "string \<Rightarrow> ModelDeclaration \<Rightarrow> URLSearchParams \<Rightarrow> thrown + QuerySelectorWhere" where
  "getFilters model declaration searchParams =
     reduceFields (filterParam model declaration) [] searchParams"

subsection \<open>The list handler's options\<close>

text \<open>
  \<open>parseInt(s, 10)\<close>: leading white space is skipped, one sign is read, then the
  longest run of decimal digits; no digit gives \<open>NaN\<close>. Strings are sequences of
  8-bit characters here, so the white space is TAB, LF, VT, FF, CR, space and the
  no-break space. The result is the exact whole number (the rounding of numbers beyond
  2^53 is not represented).
\<close>

definition isWhiteSpace :: "char \<Rightarrow> bool" where
  "isWhiteSpace c = ((of_char c :: nat) \<in> {9, 10, 11, 12, 13, 32, 160})"

definition isDigit :: "char \<Rightarrow> bool" where
  "isDigit c = (48 \<le> (of_char c :: nat) \<and> (of_char c :: nat) \<le> 57)"

definition digitsValue :: "string \<Rightarrow> nat" where
  "digitsValue ds = foldl (\<lambda>n c. 10 * n + ((of_char c :: nat) - 48)) 0 ds"

definition parseInt :: "string \<Rightarrow> jsnum" where
  "parseInt s =
     (let s1 = dropWhile isWhiteSpace s;
          negative = (s1 \<noteq> [] \<and> hd s1 = CHR ''-'');
          s2 = (if s1 \<noteq> [] \<and> (hd s1 = CHR ''+'' \<or> hd s1 = CHR ''-'') then tl s1 else s1);
          digits = takeWhile isDigit s2
      in if digits = [] then NaN
         else Fin ((if negative then - 1 else 1) * int (digitsValue digits)))"

definition isNaN :: "jsnum \<Rightarrow> bool" where
  "isNaN n = (n = NaN)"

record FindManyOptions =
  opt_where :: QuerySelectorWhere
  opt_take :: "jsnum option"
  opt_skip :: "jsnum option"
  opt_cursor :: "string option"

text \<open>\<open>take && !isNaN(take)\<close>, for \<open>take\<close> a number or null.\<close>

definition usableTake :: "jsnum option \<Rightarrow> bool" where
  "usableTake t = (case t of None \<Rightarrow> False | Some n \<Rightarrow> n \<noteq> Fin 0 \<and> \<not> isNaN n)"

text \<open>
  The resolver of the collection route (lines 120-145) up to the call of
  \<open>model.findMany(options)\<close>: the options that call receives, or what
  \<open>getFilters\<close> threw before it.
\<close>

definition listOptions ::
  "string \<Rightarrow> ModelDeclaration \<Rightarrow> URLSearchParams \<Rightarrow> thrown + FindManyOptions" where
  "listOptions model declaration searchParams =
     (let cursor = searchParams_get searchParams ''cursor'';
          rawSkip = searchParams_get searchParams ''skip'';
          rawTake = searchParams_get searchParams ''take''
      in case getFilters model declaration searchParams of
           Inl e \<Rightarrow> Inl e
         | Inr filters \<Rightarrow>
             (let skipNum = parseInt (case rawSkip of None \<Rightarrow> ''0'' | Some s \<Rightarrow> s);
                  takeNum = (case rawTake of None \<Rightarrow> None | Some t \<Rightarrow> Some (parseInt t));
                  options0 = \<lparr>opt_where = filters, opt_take = None, opt_skip = None,
                              opt_cursor = None\<rparr>;
                  options1 = (if usableTake takeNum \<and> \<not> isNaN skipNum
                              then options0\<lparr>opt_take := takeNum, opt_skip := Some skipNum\<rparr>
                              else options0);
                  options2 = (if usableTake takeNum \<and> cursor \<noteq> None \<and> cursor \<noteq> Some []
                              then options1\<lparr>opt_take := takeNum, opt_cursor := cursor\<rparr>
                              else options1)
              in Inr options2))"

subsection \<open>\<open>removeInternalProperties\<close>\<close>

text \<open>
  \<open>typeof value === 'object' && '__type' in value\<close>. \<open>typeof null\<close> is
  \<open>'object'\<close>, and \<open>'__type' in null\<close> throws.
\<close>

fun isInternalEntity :: "jsval \<Rightarrow> error + bool" where
  "isInternalEntity JNull = Inl TypeError"
| "isInternalEntity (JObj kvs) = Inr (''__type'' \<in> fst ` set kvs)"
| "isInternalEntity v = Inr False"

text \<open>\<open>key.startsWith('__')\<close>.\<close>

definition internalKey :: "string \<Rightarrow> bool" where
  "internalKey key = (take 2 key = ''__'')"

text \<open>
  The two \<open>reduce\<close> loops of lines 235-250, each with its accumulator: the one over
  \<open>Object.entries(entity)\<close> builds the \<open>result\<close> object, the one over an array value
  pushes onto \<open>acc\<close>. Both call \<open>removeInternalProperties\<close> on what
  \<open>isInternalEntity\<close> accepts, which is an object.
\<close>

lemma entries_size:
  "size_list (size_prod (\<lambda>x. 0) size) (entries v) < Suc (size v + n)"
  "size_list (size_prod (\<lambda>x. 0) size) (entries v) < Suc (Suc (size v + n))"
  by (cases v; simp)+

lemma elements_size:
  "size_list size (elements v) < Suc (Suc (size v + n))"
  by (cases v; simp)

function (sequential) stripEntries ::
  "(string \<times> jsval) list \<Rightarrow> (string \<times> jsval) list \<Rightarrow> error + (string \<times> jsval) list"
and stripElements :: "jsval list \<Rightarrow> jsval list \<Rightarrow> error + jsval list" where
  "stripEntries [] result = Inr result"
| "stripEntries ((key, value) # rest) result =
     (if internalKey key then stripEntries rest result
      else case isInternalEntity value of
             Inl e \<Rightarrow> Inl e
           | Inr True \<Rightarrow>
               (case stripEntries (entries value) [] of
                  Inl e \<Rightarrow> Inl e
                | Inr stripped \<Rightarrow> stripEntries rest (AList.update key (JObj stripped) result))
           | Inr False \<Rightarrow>
               if isArray value then
                 (case stripElements (elements value) [] of
                    Inl e \<Rightarrow> Inl e
                  | Inr acc \<Rightarrow> stripEntries rest (AList.update key (JArr acc) result))
               else stripEntries rest (AList.update key value result))"
| "stripElements [] acc = Inr acc"
| "stripElements (reletionalEntity # rest) acc =
     (case isInternalEntity reletionalEntity of
        Inl e \<Rightarrow> Inl e
      | Inr True \<Rightarrow>
          (case stripEntries (entries reletionalEntity) [] of
             Inl e \<Rightarrow> Inl e
           | Inr stripped \<Rightarrow> stripElements rest (acc @ [JObj stripped]))
      | Inr False \<Rightarrow> stripElements rest (acc @ [reletionalEntity]))"
  by pat_completeness auto

termination
  by (relation "measure (case_sum (\<lambda>p. size_list (size_prod (\<lambda>x. 0) size) (fst p))
                                   (\<lambda>p. size_list size (fst p)))")
     (simp_all add: entries_size elements_size)

definition removeInternalProperties ::
  "(string \<times> jsval) list \<Rightarrow> error + (string \<times> jsval) list" where
  "removeInternalProperties entity = stripEntries entity []"

subsection \<open>Vocabulary of the claim about \<open>removeInternalProperties\<close>\<close>

text \<open>
  A value holds an internal key when some object in it, at any nesting depth through
  objects and arrays, has a key that begins with two underscores.
\<close>

fun hasInternalKey :: "jsval \<Rightarrow> bool" where
  "hasInternalKey (JObj kvs) =
     list_ex (\<lambda>p. internalKey (fst p) \<or> hasInternalKey (snd p)) kvs"
| "hasInternalKey (JArr vs) = list_ex hasInternalKey vs"
| "hasInternalKey v = False"

text \<open>A value contains \<open>null\<close>, at any nesting depth.\<close>

fun containsNull :: "jsval \<Rightarrow> bool" where
  "containsNull JNull = True"
| "containsNull (JObj kvs) = list_ex (\<lambda>p. containsNull (snd p)) kvs"
| "containsNull (JArr vs) = list_ex containsNull vs"
| "containsNull v = False"

text \<open>
  What becomes of an array element: an internal entity is replaced by its stripped
  copy, anything else is passed on as it is.
\<close>

definition strippedElement :: "jsval \<Rightarrow> jsval \<Rightarrow> bool" where
  "strippedElement v w =
     (case isInternalEntity v of
        Inr True \<Rightarrow>
          (case removeInternalProperties (entries v) of
             Inl e \<Rightarrow> False
           | Inr stripped \<Rightarrow> w = JObj stripped)
      | _ \<Rightarrow> w = v)"

section \<open>Properties of the schema parser\<close>

subsection \<open>The fold and the single step\<close>

lemma reduceFields_append:
  "reduceFields step acc (xs @ ys) =
     (case reduceFields step acc xs of Inl e \<Rightarrow> Inl e | Inr acc' \<Rightarrow> reduceFields step acc' ys)"
  by (induction xs arbitrary: acc) (auto split: sum.splits)

lemma parseField_PrimaryKey:
  "parseField findPk dictionary model initialValues acc (key, PrimaryKey getValue) =
     (if truthyKey (primaryKey acc) then Inl (MultiplePrimaryKeys model)
      else Inr (acc\<lparr>primaryKey := Some key,
                    properties := AList.update key
                      (if truthy (exactValueOf initialValues key)
                       then exactValueOf initialValues key else getValue)
                      (properties acc)\<rparr>))"
  by (simp add: parseField_def invariant_def)

lemma parseField_plain:
  assumes "\<not> isPrimaryKeyField d"
    and "isPlainValue (exactValueOf initialValues key) = Inr True"
  shows "parseField findPk dictionary model initialValues acc (key, d) =
           Inr (acc\<lparr>properties :=
                  AList.update key (exactValueOf initialValues key) (properties acc)\<rparr>)"
  using assms by (cases d) (simp_all add: parseField_def)


lemma parseField_frame:
  assumes "parseField findPk dictionary model initialValues acc (key, d) = Inr acc'"
    and "k \<noteq> key"
  shows "map_of (properties acc') k = map_of (properties acc) k \<and>
         map_of (relations acc') k = map_of (relations acc) k"
  using assms
  by (cases d)
     (auto simp: parseField_def invariant_def update_conv' Let_def
           split: if_splits sum.splits bool.splits)

lemma reduceFields_frame:
  assumes "reduceFields (parseField findPk dictionary model initialValues) acc xs = Inr acc'"
    and "k \<notin> fst ` set xs"
  shows "map_of (properties acc') k = map_of (properties acc) k \<and>
         map_of (relations acc') k = map_of (relations acc) k"
  using assms
proof (induction xs arbitrary: acc)
  case Nil
  then show ?case by simp
next
  case (Cons x xs)
  obtain key d where x: "x = (key, d)" by (cases x)
  from Cons.prems obtain a where
    a: "parseField findPk dictionary model initialValues acc (key, d) = Inr a"
    and rest: "reduceFields (parseField findPk dictionary model initialValues) a xs = Inr acc'"
    by (auto simp: x split: sum.splits)
  from Cons.prems(2) have "k \<noteq> key" "k \<notin> fst ` set xs" by (auto simp: x)
  with parseField_frame[OF a] Cons.IH[OF rest] show ?case by simp
qed

lemma parse_reaches_field:
  assumes "distinct (map fst declaration)" and "(key, d) \<in> set declaration"
    and "parseModelDeclaration findPk dictionary model declaration initialValues = Inr r"
  shows "\<exists>acc acc'. parseField findPk dictionary model initialValues acc (key, d) = Inr acc' \<and>
           map_of (properties acc) key = None \<and> map_of (relations acc) key = None \<and>
           map_of (properties r) key = map_of (properties acc') key \<and>
           map_of (relations r) key = map_of (relations acc') key"
proof -
  from assms(2) obtain pre post where decl: "declaration = pre @ (key, d) # post"
    by (auto dest: split_list)
  with assms(1) have notin: "key \<notin> fst ` set pre" "key \<notin> fst ` set post" by auto
  let ?step = "parseField findPk dictionary model initialValues"
  from assms(3) obtain acc where acc: "reduceFields ?step emptyParse pre = Inr acc"
    and tail: "reduceFields ?step acc ((key, d) # post) = Inr r"
    by (auto simp: parseModelDeclaration_def decl reduceFields_append split: sum.splits)
  from tail obtain acc' where step: "?step acc (key, d) = Inr acc'"
    and post: "reduceFields ?step acc' post = Inr r"
    by (auto split: sum.splits)
  from reduceFields_frame[OF acc notin(1)]
  have "map_of (properties acc) key = None" "map_of (relations acc) key = None"
    by (simp_all add: emptyParse_def)
  with step reduceFields_frame[OF post notin(2)] show ?thesis by blast
qed

subsection \<open>Primary keys\<close>

lemma getProp_failure: "getProp v k = Inl e \<Longrightarrow> e = TypeError"
  by (cases v) auto

lemma isPlainValue_failure: "isPlainValue v = Inl e \<Longrightarrow> e = TypeError"
  by (cases v) (auto split: sum.splits option.splits dest: getProp_failure)

lemma refsOf_failure: "refsOf m pk vs = Inl e \<Longrightarrow> e = TypeError"
  by (induction vs arbitrary: e) (auto split: sum.splits dest: getProp_failure)

lemma parseField_keeps_primaryKey:
  assumes "\<not> isPrimaryKeyField d"
    and "parseField findPk dictionary model initialValues acc (key, d) = Inr acc'"
  shows "primaryKey acc' = primaryKey acc"
  using assms
  by (cases d) (auto simp: parseField_def Let_def split: if_splits sum.splits bool.splits)

lemma parseField_other_failure:
  assumes "\<not> isPrimaryKeyField d"
  shows "parseField findPk dictionary model initialValues acc (key, d) \<noteq>
           Inl (MultiplePrimaryKeys m')"
  using assms
  by (cases d)
     (auto simp: parseField_def Let_def split: if_splits sum.splits bool.splits
           dest: getProp_failure refsOf_failure isPlainValue_failure)

lemma reduceFields_without_primaryKey:
  assumes "\<forall>x\<in>set xs. \<not> isPrimaryKeyField (snd x)"
  shows "reduceFields (parseField findPk dictionary model initialValues) acc xs \<noteq>
           Inl (MultiplePrimaryKeys m') \<and>
         (\<forall>acc'. reduceFields (parseField findPk dictionary model initialValues) acc xs = Inr acc'
            \<longrightarrow> primaryKey acc' = primaryKey acc)"
  using assms
proof (induction xs arbitrary: acc)
  case Nil
  then show ?case by simp
next
  case (Cons x xs)
  let ?step = "parseField findPk dictionary model initialValues"
  obtain key d where x: "x = (key, d)" by (cases x)
  from Cons.prems have d: "\<not> isPrimaryKeyField d"
    and xs: "\<forall>x\<in>set xs. \<not> isPrimaryKeyField (snd x)" by (auto simp: x)
  show ?case
  proof (cases "?step acc (key, d)")
    case (Inl e)
    from parseField_other_failure[OF d] Inl have "e \<noteq> MultiplePrimaryKeys m'"
      by metis
    with Inl show ?thesis by (simp add: x)
  next
    case (Inr a)
    have step: "reduceFields ?step acc (x # xs) = reduceFields ?step a xs"
      by (simp add: x Inr)
    have keep: "primaryKey a = primaryKey acc"
      by (rule parseField_keeps_primaryKey[OF d Inr])
    from Cons.IH[OF xs, of a] show ?thesis
      unfolding step keep .
  qed
qed

lemma reduceFields_assigns_primaryKey:
  assumes "reduceFields (parseField findPk dictionary model initialValues) acc xs = Inr acc'"
    and "\<forall>x\<in>set xs. isPrimaryKeyField (snd x) \<longrightarrow> fst x \<noteq> []"
    and "truthyKey (primaryKey acc) \<or> (\<exists>x\<in>set xs. isPrimaryKeyField (snd x))"
  shows "truthyKey (primaryKey acc')"
  using assms
proof (induction xs arbitrary: acc)
  case Nil
  then show ?case by simp
next
  case (Cons x xs)
  obtain key d where x: "x = (key, d)" by (cases x)
  from Cons.prems(1) obtain a where
    a: "parseField findPk dictionary model initialValues acc (key, d) = Inr a"
    and rest: "reduceFields (parseField findPk dictionary model initialValues) a xs = Inr acc'"
    by (auto simp: x split: sum.splits)
  from Cons.prems(2) have names: "\<forall>x\<in>set xs. isPrimaryKeyField (snd x) \<longrightarrow> fst x \<noteq> []"
    by simp
  show ?case
  proof (cases "isPrimaryKeyField d")
    case True
    then obtain g where d: "d = PrimaryKey g" by (cases d) auto
    from Cons.prems(2) True have "key \<noteq> []" by (simp add: x)
    with a have "truthyKey (primaryKey a)"
      by (auto simp: d parseField_PrimaryKey truthyKey_def split: if_splits)
    with Cons.IH[OF rest names] show ?thesis by blast
  next
    case False
    from parseField_keeps_primaryKey[OF False a] Cons.prems(3) False
    have "truthyKey (primaryKey a) \<or> (\<exists>x\<in>set xs. isPrimaryKeyField (snd x))"
      by (auto simp: x)
    with Cons.IH[OF rest names] show ?thesis by blast
  qed
qed

lemma second_primaryKey_fails:
  assumes "declaration = pre @ (key, PrimaryKey getValue) # post"
    and "\<exists>x\<in>set pre. isPrimaryKeyField (snd x)"
    and "\<forall>x\<in>set pre. isPrimaryKeyField (snd x) \<longrightarrow> fst x \<noteq> []"
  shows "parseModelDeclaration findPk dictionary model declaration initialValues =
           (case reduceFields (parseField findPk dictionary model initialValues) emptyParse pre of
              Inl e \<Rightarrow> Inl e
            | Inr acc \<Rightarrow> Inl (MultiplePrimaryKeys model))"
proof (cases "reduceFields (parseField findPk dictionary model initialValues) emptyParse pre")
  case (Inl e)
  then show ?thesis
    by (simp add: parseModelDeclaration_def assms(1) reduceFields_append)
next
  case (Inr acc)
  from reduceFields_assigns_primaryKey[OF Inr assms(3)] assms(2)
  have "truthyKey (primaryKey acc)" by blast
  with Inr show ?thesis
    by (simp add: parseModelDeclaration_def assms(1) reduceFields_append parseField_PrimaryKey)
qed

lemma single_primaryKey_recorded:
  assumes "declaration = pre @ (key, PrimaryKey getValue) # post"
    and "\<forall>x\<in>set (pre @ post). \<not> isPrimaryKeyField (snd x)"
  shows "parseModelDeclaration findPk dictionary model declaration initialValues \<noteq>
           Inl (MultiplePrimaryKeys m') \<and>
         (\<forall>r. parseModelDeclaration findPk dictionary model declaration initialValues = Inr r
            \<longrightarrow> primaryKey r = Some key)"
proof -
  let ?step = "parseField findPk dictionary model initialValues"
  from assms(2) have pre: "\<forall>x\<in>set pre. \<not> isPrimaryKeyField (snd x)"
    and post: "\<forall>x\<in>set post. \<not> isPrimaryKeyField (snd x)" by auto
  show ?thesis
  proof (cases "reduceFields ?step emptyParse pre")
    case (Inl e)
    with reduceFields_without_primaryKey[OF pre, of findPk dictionary model initialValues emptyParse m']
    show ?thesis
      by (simp add: parseModelDeclaration_def assms(1) reduceFields_append)
  next
    case (Inr acc)
    with reduceFields_without_primaryKey[OF pre, of findPk dictionary model initialValues emptyParse m']
    have "primaryKey acc = None" by (simp add: emptyParse_def)
    then obtain a where a: "?step acc (key, PrimaryKey getValue) = Inr a"
      and pk: "primaryKey a = Some key"
      by (simp add: parseField_PrimaryKey truthyKey_def)
    from reduceFields_without_primaryKey[OF post, of findPk dictionary model initialValues a m'] pk
    have "reduceFields ?step a post \<noteq> Inl (MultiplePrimaryKeys m') \<and>
          (\<forall>r. reduceFields ?step a post = Inr r \<longrightarrow> primaryKey r = Some key)"
      by simp
    with Inr a show ?thesis
      by (simp add: parseModelDeclaration_def assms(1) reduceFields_append)
  qed
qed

lemmas parse_eval =
  parseModelDeclaration_def parseField_def emptyParse_def invariant_def truthyKey_def
  exactValueOf_def propertyKey_def findPrimaryKey_def Let_def

lemma second_flagged_field:
  assumes "1 < length (filter P xs)"
  shows "\<exists>pre x post. xs = pre @ x # post \<and> P x \<and> (\<exists>y\<in>set pre. P y)"
proof -
  from assms have "filter P xs \<noteq> []" by auto
  then have "\<exists>x\<in>set xs. P x" by (simp add: filter_empty_conv)
  from split_list_last_prop[OF this] obtain pre x post where
    xs: "xs = pre @ x # post" and x: "P x" and post: "\<forall>z\<in>set post. \<not> P z"
    by blast
  from post have "filter P post = []" by (simp add: filter_empty_conv)
  with assms x have "filter P pre \<noteq> []" by (auto simp: xs)
  then have "\<exists>y\<in>set pre. P y" by (simp add: filter_empty_conv)
  with xs x show ?thesis by blast
qed

text \<open>
  Claim C1, as amended.

  \<^item> A schema that flags more than one field as primary key, all of them with non-empty
    names, never parses: \<open>parseModelDeclaration\<close> fails.
  \<^item> More precisely, let the schema be split at a flagged field \<open>key\<close>, with
    \<open>pre\<close> the fields declared before it and \<open>post\<close> those after it. If \<open>pre\<close>
    holds a flagged field and the flagged fields of \<open>pre\<close> have non-empty names, the
    parse fails with the failure of the first field of \<open>pre\<close> that fails, if one
    does, and with \<open>MultiplePrimaryKeys\<close> otherwise.
  \<^item> If \<open>key\<close> is the only flagged field, the parse never fails with
    \<open>MultiplePrimaryKeys\<close>, and every result it returns records \<open>key\<close> as the
    primary key.

  The parser tests \<open>!!acc.primaryKey\<close>, the truthiness of the recorded field name;
  what follows a flagged field whose name is the empty string is left out of the
  statement.
\<close>

theorem multiple_primary_keys:
  "(1 < length (filter (\<lambda>x. isPrimaryKeyField (snd x)) declaration) \<and>
    (\<forall>x\<in>set declaration. isPrimaryKeyField (snd x) \<longrightarrow> fst x \<noteq> []) \<longrightarrow>
      (\<exists>e. parseModelDeclaration findPk dictionary model declaration initialValues = Inl e)) \<and>
   (declaration = pre @ (key, PrimaryKey getValue) # post \<and>
    (\<exists>x\<in>set pre. isPrimaryKeyField (snd x)) \<and>
    (\<forall>x\<in>set pre. isPrimaryKeyField (snd x) \<longrightarrow> fst x \<noteq> []) \<longrightarrow>
      parseModelDeclaration findPk dictionary model declaration initialValues =
        (case reduceFields (parseField findPk dictionary model initialValues) emptyParse pre of
           Inl e \<Rightarrow> Inl e
         | Inr acc \<Rightarrow> Inl (MultiplePrimaryKeys model))) \<and>
   (declaration = pre @ (key, PrimaryKey getValue) # post \<and>
    (\<forall>x\<in>set (pre @ post). \<not> isPrimaryKeyField (snd x)) \<longrightarrow>
      parseModelDeclaration findPk dictionary model declaration initialValues \<noteq>
        Inl (MultiplePrimaryKeys m') \<and>
      (\<forall>r. parseModelDeclaration findPk dictionary model declaration initialValues = Inr r
         \<longrightarrow> primaryKey r = Some key))"
proof (intro conjI)
  show "1 < length (filter (\<lambda>x. isPrimaryKeyField (snd x)) declaration) \<and>
        (\<forall>x\<in>set declaration. isPrimaryKeyField (snd x) \<longrightarrow> fst x \<noteq> []) \<longrightarrow>
          (\<exists>e. parseModelDeclaration findPk dictionary model declaration initialValues = Inl e)"
  proof
    assume a: "1 < length (filter (\<lambda>x. isPrimaryKeyField (snd x)) declaration) \<and>
               (\<forall>x\<in>set declaration. isPrimaryKeyField (snd x) \<longrightarrow> fst x \<noteq> [])"
    then obtain pre' x post' where
      decl: "declaration = pre' @ x # post'" and x: "isPrimaryKeyField (snd x)"
      and before: "\<exists>y\<in>set pre'. isPrimaryKeyField (snd y)"
      using second_flagged_field[of "\<lambda>x. isPrimaryKeyField (snd x)" "declaration"] by blast
    from x obtain k g where xk: "x = (k, PrimaryKey g)"
      by (cases x; cases "snd x") auto
    from a decl have names: "\<forall>y\<in>set pre'. isPrimaryKeyField (snd y) \<longrightarrow> fst y \<noteq> []"
      by simp
    from second_primaryKey_fails[OF decl[unfolded xk] before names,
        of findPk dictionary model initialValues]
    show "\<exists>e. parseModelDeclaration findPk dictionary model declaration initialValues = Inl e"
      by (auto split: sum.splits)
  qed
next
  show "declaration = pre @ (key, PrimaryKey getValue) # post \<and>
        (\<exists>x\<in>set pre. isPrimaryKeyField (snd x)) \<and>
        (\<forall>x\<in>set pre. isPrimaryKeyField (snd x) \<longrightarrow> fst x \<noteq> []) \<longrightarrow>
          parseModelDeclaration findPk dictionary model declaration initialValues =
            (case reduceFields (parseField findPk dictionary model initialValues) emptyParse pre of
               Inl e \<Rightarrow> Inl e
             | Inr acc \<Rightarrow> Inl (MultiplePrimaryKeys model))"
    using second_primaryKey_fails[of "declaration" pre key getValue post] by blast
next
  show "declaration = pre @ (key, PrimaryKey getValue) # post \<and>
        (\<forall>x\<in>set (pre @ post). \<not> isPrimaryKeyField (snd x)) \<longrightarrow>
          parseModelDeclaration findPk dictionary model declaration initialValues \<noteq>
            Inl (MultiplePrimaryKeys m') \<and>
          (\<forall>r. parseModelDeclaration findPk dictionary model declaration initialValues = Inr r
             \<longrightarrow> primaryKey r = Some key)"
    using single_primaryKey_recorded[of "declaration" pre key getValue post] by blast
qed

text \<open>
  The theorem at two schemas: \<open>{ id: primaryKey, id2: primaryKey }\<close> fails with
  \<open>MultiplePrimaryKeys\<close>, and \<open>{ id: primaryKey, name: getter }\<close> records \<open>id\<close>.
\<close>

theorem multiple_primary_keys_witness:
  "parseModelDeclaration findPrimaryKey [] ''user''
     [(''id'', PrimaryKey (JStr ''a'')), (''id2'', PrimaryKey (JStr ''b''))] None =
     Inl (MultiplePrimaryKeys ''user'') \<and>
   (\<exists>r. parseModelDeclaration findPrimaryKey [] ''user''
          [(''id'', PrimaryKey (JStr ''a'')), (''name'', ValueGetter (JStr ''n''))] None = Inr r \<and>
        primaryKey r = Some ''id'')"
proof -
  have ret: "parseModelDeclaration findPrimaryKey [] ''user''
               [(''id'', PrimaryKey (JStr ''a'')), (''name'', ValueGetter (JStr ''n''))] None =
             Inr \<lparr>primaryKey = Some ''id'',
                  properties = [(''id'', JStr ''a''), (''name'', JStr ''n'')],
                  relations = []\<rparr>"
    by (simp add: parse_eval)
  from multiple_primary_keys[of
      "[(''id'', PrimaryKey (JStr ''a'')), (''id2'', PrimaryKey (JStr ''b''))]"
      findPrimaryKey "[]" "''user''" None
      "[(''id'', PrimaryKey (JStr ''a''))]" "''id2''" "JStr ''b''" "[]" "''user''"]
  have two: "parseModelDeclaration findPrimaryKey [] ''user''
     [(''id'', PrimaryKey (JStr ''a'')), (''id2'', PrimaryKey (JStr ''b''))] None =
     Inl (MultiplePrimaryKeys ''user'')"
    by (simp add: parseField_def emptyParse_def invariant_def truthyKey_def exactValueOf_def
          Let_def)
  from multiple_primary_keys[of
      "[(''id'', PrimaryKey (JStr ''a'')), (''name'', ValueGetter (JStr ''n''))]"
      findPrimaryKey "[]" "''user''" None
      "[]" "''id''" "JStr ''a''" "[(''name'', ValueGetter (JStr ''n''))]" "''user''"] ret
  have one: "\<exists>r. parseModelDeclaration findPrimaryKey [] ''user''
          [(''id'', PrimaryKey (JStr ''a'')), (''name'', ValueGetter (JStr ''n''))] None = Inr r \<and>
        primaryKey r = Some ''id''"
    by simp
  from two one show ?thesis by blast
qed

text \<open>
  Claim C1 as stated fails where another failure comes first: the schema
  \<open>{ id: primaryKey, posts: manyOf('post'), id2: primaryKey }\<close> flags two fields, and
  parsing it without initial values stops at \<open>posts\<close> with
  \<open>RelationWithoutValue\<close>.
\<close>

theorem multiple_primary_keys_counterexample:
  "length (filter (\<lambda>x. isPrimaryKeyField (snd x))
     [(''id'', PrimaryKey (JStr ''a'')), (''posts'', Relation ManyOf ''post'' False),
      (''id2'', PrimaryKey (JStr ''b''))]) = 2 \<and>
   parseModelDeclaration findPrimaryKey [] ''user''
     [(''id'', PrimaryKey (JStr ''a'')), (''posts'', Relation ManyOf ''post'' False),
      (''id2'', PrimaryKey (JStr ''b''))] None =
     Inl (RelationWithoutValue ''user'' ''posts'') \<and>
   parseModelDeclaration findPrimaryKey [] ''user''
     [(''id'', PrimaryKey (JStr ''a'')), (''posts'', Relation ManyOf ''post'' False),
      (''id2'', PrimaryKey (JStr ''b''))] None \<noteq>
     Inl (MultiplePrimaryKeys ''user'')"
  by (simp add: parse_eval)

text \<open>
  The case left out of the statement of claim C1: a flagged field named by the empty
  string does not count as assigned, and a second flagged field is accepted after it.
\<close>

lemma empty_name_primaryKey:
  "parseModelDeclaration findPrimaryKey [] ''user''
     [([], PrimaryKey (JStr ''a'')), (''id'', PrimaryKey (JStr ''b''))] None =
   Inr \<lparr>primaryKey = Some ''id'', properties = [([], JStr ''a''), (''id'', JStr ''b'')],
        relations = []\<rparr>"
  by (simp add: parse_eval)




text \<open>
  What a primary-key field stores: the explicit value when it is truthy, the generated
  one otherwise.
\<close>

lemma primaryKey_value:
  "parseField findPk dictionary model initialValues acc (key, PrimaryKey getValue) = Inr acc'
   \<Longrightarrow> map_of (properties acc') key =
         Some (if truthy (exactValueOf initialValues key)
               then exactValueOf initialValues key else getValue)"
  by (auto simp: parseField_PrimaryKey update_conv' split: if_splits)

text \<open>
  Claim C4 against the code. Line 52 stores \<open>exactValue || valueGetter.getValue()\<close>:
  an explicit primary-key value of \<open>0\<close> or of the empty string is replaced by the
  generated default. The third parse shows the sibling path of lines 56-69, which
  keeps the explicit \<open>0\<close> of a field that is not the primary key.
\<close>

theorem falsy_primary_key_value:
  "parseModelDeclaration findPrimaryKey [] ''user''
     [(''id'', PrimaryKey (JStr ''generated''))] (Some [(''id'', JNum (Fin 0))]) =
     Inr \<lparr>primaryKey = Some ''id'', properties = [(''id'', JStr ''generated'')],
          relations = []\<rparr> \<and>
   parseModelDeclaration findPrimaryKey [] ''user''
     [(''id'', PrimaryKey (JStr ''generated''))] (Some [(''id'', JStr [])]) =
     Inr \<lparr>primaryKey = Some ''id'', properties = [(''id'', JStr ''generated'')],
          relations = []\<rparr> \<and>
   parseModelDeclaration findPrimaryKey [] ''user''
     [(''id'', PrimaryKey (JStr ''generated'')), (''age'', ValueGetter (JNum (Fin 30)))]
     (Some [(''id'', JStr ''u1''), (''age'', JNum (Fin 0))]) =
     Inr \<lparr>primaryKey = Some ''id'',
          properties = [(''id'', JStr ''u1''), (''age'', JNum (Fin 0))],
          relations = []\<rparr>"
  by (simp add: parse_eval)

subsection \<open>Stored values and relations\<close>

text \<open>
  Strings, numbers, booleans and dates pass the test of lines 56-61, the falsy ones
  included; \<open>undefined\<close>, \<open>null\<close> and arrays do not.
\<close>

lemma plain_scalars:
  "isPlainValue (JStr s) = Inr True" "isPlainValue (JNum n) = Inr True"
  "isPlainValue (JBool b) = Inr True" "isPlainValue (JDate t) = Inr True"
  "isPlainValue JUndefined = Inr False" "isPlainValue JNull = Inr False"
  "isPlainValue (JArr vs) = Inr False"
  by simp_all

text \<open>
  Claim C5. For a field \<open>key\<close> that is not the primary key and whose explicit
  initial value is a string, a number, a boolean or a date (each of which passes the
  test of lines 56-61, see \<open>plain_scalars\<close>), the parser's step stores
  that value unchanged under \<open>key\<close> in the properties, whatever has been parsed
  before, whatever the field's descriptor is (a relation included) and without
  consulting the primary-key resolver; and every result of the whole parse holds that
  value under \<open>key\<close> in its properties and nothing under \<open>key\<close> in its
  relations. The field names of a declaration are those of an object, hence distinct.
\<close>

theorem plain_value_stored:
  assumes "\<not> isPrimaryKeyField d"
    and "isPlainValue (exactValueOf initialValues key) = Inr True"
  shows "(\<forall>acc. parseField findPk dictionary model initialValues acc (key, d) =
            Inr (acc\<lparr>properties :=
                   AList.update key (exactValueOf initialValues key) (properties acc)\<rparr>)) \<and>
         (\<forall>r. distinct (map fst declaration) \<and> (key, d) \<in> set declaration \<and>
              parseModelDeclaration findPk dictionary model declaration initialValues = Inr r
            \<longrightarrow> map_of (properties r) key = Some (exactValueOf initialValues key) \<and>
                map_of (relations r) key = None)"
proof (intro conjI allI impI)
  fix acc
  show "parseField findPk dictionary model initialValues acc (key, d) =
          Inr (acc\<lparr>properties :=
                 AList.update key (exactValueOf initialValues key) (properties acc)\<rparr>)"
    by (rule parseField_plain[OF assms])
next
  fix r
  assume r: "distinct (map fst declaration) \<and> (key, d) \<in> set declaration \<and>
             parseModelDeclaration findPk dictionary model declaration initialValues = Inr r"
  then obtain acc acc' where
    step: "parseField findPk dictionary model initialValues acc (key, d) = Inr acc'"
    and before: "map_of (relations acc) key = None"
    and after: "map_of (properties r) key = map_of (properties acc') key"
               "map_of (relations r) key = map_of (relations acc') key"
    using parse_reaches_field[of "declaration" key d findPk dictionary model initialValues r]
    by blast
  from step have acc': "acc' = acc\<lparr>properties :=
      AList.update key (exactValueOf initialValues key) (properties acc)\<rparr>"
    by (simp add: parseField_plain[OF assms])
  show "map_of (properties r) key = Some (exactValueOf initialValues key)"
    by (simp add: after acc' update_conv')
  show "map_of (relations r) key = None"
    by (simp add: after acc' before)
qed

text \<open>
  The theorem at a \<open>oneOf('post')\<close> field \<open>best\<close> given the number \<open>0\<close>.
\<close>

theorem plain_value_stored_witness:
  "isPlainValue (exactValueOf (Some [(''id'', JStr ''u1''), (''best'', JNum (Fin 0))]) ''best'') =
     Inr True \<and>
   (\<exists>r. parseModelDeclaration findPrimaryKey [] ''user''
          [(''id'', PrimaryKey (JStr ''g'')), (''best'', Relation OneOf ''post'' False)]
          (Some [(''id'', JStr ''u1''), (''best'', JNum (Fin 0))]) = Inr r \<and>
        map_of (properties r) ''best'' = Some (JNum (Fin 0)) \<and>
        map_of (relations r) ''best'' = None)"
proof -
  have d: "\<not> isPrimaryKeyField (Relation OneOf ''post'' False)" by simp
  have v: "isPlainValue
             (exactValueOf (Some [(''id'', JStr ''u1''), (''best'', JNum (Fin 0))]) ''best'') =
           Inr True"
    by (simp add: exactValueOf_def)
  have ret: "parseModelDeclaration findPrimaryKey [] ''user''
               [(''id'', PrimaryKey (JStr ''g'')), (''best'', Relation OneOf ''post'' False)]
               (Some [(''id'', JStr ''u1''), (''best'', JNum (Fin 0))]) =
             Inr \<lparr>primaryKey = Some ''id'',
                  properties = [(''id'', JStr ''u1''), (''best'', JNum (Fin 0))],
                  relations = []\<rparr>"
    by (simp add: parse_eval)
  from plain_value_stored[OF d v, of findPrimaryKey "[]" "''user''"
      "[(''id'', PrimaryKey (JStr ''g'')), (''best'', Relation OneOf ''post'' False)]"] ret v
  show ?thesis by (simp add: exactValueOf_def)
qed

lemma refsOf_entities:
  "refsOf m pk (map JObj entities) =
     Inr (map (\<lambda>e. \<lparr>ref_type = m, ref_primaryKey = pk,
                     ref_nodeId = (case map_of e (propertyKey pk) of
                                     None \<Rightarrow> JUndefined | Some v \<Rightarrow> v)\<rparr>) entities)"
  by (induction entities) simp_all

text \<open>
  Claim C6. For a \<open>manyOf(m)\<close> field given an array of entities (objects), with
  \<open>pk\<close> the primary-key field the resolver finds for the target model \<open>m\<close>, the
  parser's step records under \<open>key\<close> a \<open>ManyOf\<close> relation whose \<open>refs\<close>
  has one marker per array element, in array order, each made of \<open>m\<close>, \<open>pk\<close> and
  the element's own value at \<open>pk\<close> (\<open>undefined\<close> where the element has none);
  every result of the whole parse holds exactly that relation under \<open>key\<close>, and
  nothing under \<open>key\<close> in its properties: no entity is stored by value.
\<close>

theorem many_of_reference_markers:
  assumes "exactValueOf initialValues key = JArr (map JObj entities)"
    and "findPk (map_of dictionary m) = Inr (Some pk)"
  shows "(\<forall>acc. parseField findPk dictionary model initialValues acc (key, Relation ManyOf m u) =
            Inr (acc\<lparr>relations := AList.update key
                   \<lparr>kind = ManyOf, modelName = m, unique = u,
                    refs = map (\<lambda>e. \<lparr>ref_type = m, ref_primaryKey = Some pk,
                                     ref_nodeId = (case map_of e pk of
                                                     None \<Rightarrow> JUndefined | Some v \<Rightarrow> v)\<rparr>)
                             entities\<rparr>
                   (relations acc)\<rparr>)) \<and>
         (\<forall>r. distinct (map fst declaration) \<and> (key, Relation ManyOf m u) \<in> set declaration \<and>
              parseModelDeclaration findPk dictionary model declaration initialValues = Inr r
            \<longrightarrow> map_of (relations r) key =
                  Some \<lparr>kind = ManyOf, modelName = m, unique = u,
                        refs = map (\<lambda>e. \<lparr>ref_type = m, ref_primaryKey = Some pk,
                                         ref_nodeId = (case map_of e pk of
                                                         None \<Rightarrow> JUndefined | Some v \<Rightarrow> v)\<rparr>)
                                 entities\<rparr> \<and>
                map_of (properties r) key = None)"
proof -
  let ?rel = "\<lparr>kind = ManyOf, modelName = m, unique = u,
               refs = map (\<lambda>e. \<lparr>ref_type = m, ref_primaryKey = Some pk,
                                ref_nodeId = (case map_of e pk of
                                                None \<Rightarrow> JUndefined | Some v \<Rightarrow> v)\<rparr>)
                        entities\<rparr>"
  have step: "parseField findPk dictionary model initialValues acc (key, Relation ManyOf m u) =
                Inr (acc\<lparr>relations := AList.update key ?rel (relations acc)\<rparr>)" for acc
    by (simp add: parseField_def assms refsOf_entities propertyKey_def)
  have whole: "map_of (relations r) key = Some ?rel \<and> map_of (properties r) key = None"
    if r: "distinct (map fst declaration) \<and> (key, Relation ManyOf m u) \<in> set declaration \<and>
           parseModelDeclaration findPk dictionary model declaration initialValues = Inr r" for r
  proof -
    from r obtain acc acc' where
      s: "parseField findPk dictionary model initialValues acc (key, Relation ManyOf m u) = Inr acc'"
      and before: "map_of (properties acc) key = None"
      and after: "map_of (properties r) key = map_of (properties acc') key"
                 "map_of (relations r) key = map_of (relations acc') key"
      using parse_reaches_field[of "declaration" key "Relation ManyOf m u" findPk dictionary
          model initialValues r]
      by blast
    from s have "acc' = acc\<lparr>relations := AList.update key ?rel (relations acc)\<rparr>"
      by (simp add: step)
    then show ?thesis by (simp add: after before update_conv')
  qed
  from step whole show ?thesis by blast
qed

text \<open>
  The theorem at \<open>posts: manyOf('post', { unique: true })\<close> given two posts, the
  target model being keyed by \<open>slug\<close>.
\<close>

theorem many_of_reference_markers_witness:
  "parseModelDeclaration findPrimaryKey
     [(''post'', [(''slug'', PrimaryKey (JStr ''s'')), (''title'', ValueGetter (JStr ''t''))])]
     ''user''
     [(''id'', PrimaryKey (JStr ''g'')), (''posts'', Relation ManyOf ''post'' True)]
     (Some [(''posts'', JArr [JObj [(''__type'', JStr ''post''), (''slug'', JStr ''a''),
                                   (''title'', JStr ''A'')],
                             JObj [(''__type'', JStr ''post''), (''slug'', JStr ''b'')]])]) =
   Inr \<lparr>primaryKey = Some ''id'', properties = [(''id'', JStr ''g'')],
        relations = [(''posts'',
          \<lparr>kind = ManyOf, modelName = ''post'', unique = True,
           refs = [\<lparr>ref_type = ''post'', ref_primaryKey = Some ''slug'', ref_nodeId = JStr ''a''\<rparr>,
                   \<lparr>ref_type = ''post'', ref_primaryKey = Some ''slug'',
                    ref_nodeId = JStr ''b''\<rparr>]\<rparr>)]\<rparr>"
proof -
  have v: "exactValueOf
      (Some [(''posts'', JArr [JObj [(''__type'', JStr ''post''), (''slug'', JStr ''a''),
                                    (''title'', JStr ''A'')],
                              JObj [(''__type'', JStr ''post''), (''slug'', JStr ''b'')]])])
      ''posts'' =
    JArr (map JObj [[(''__type'', JStr ''post''), (''slug'', JStr ''a''), (''title'', JStr ''A'')],
                    [(''__type'', JStr ''post''), (''slug'', JStr ''b'')]])"
    by (simp add: exactValueOf_def)
  have pk: "findPrimaryKey
      (map_of [(''post'', [(''slug'', PrimaryKey (JStr ''s'')),
                          (''title'', ValueGetter (JStr ''t''))])] ''post'') =
    Inr (Some ''slug'')"
    by (simp add: findPrimaryKey_def)
  from many_of_reference_markers[where findPk = findPrimaryKey and m = "''post''"
      and dictionary = "[(''post'', [(''slug'', PrimaryKey (JStr ''s'')),
                                    (''title'', ValueGetter (JStr ''t''))])]"
      and model = "''user''" and u = True, OF v pk]
  show ?thesis
    by (simp add: parseModelDeclaration_def emptyParse_def parseField_PrimaryKey truthyKey_def
          exactValueOf_def)
qed

text \<open>
  Claim C7, as amended. Let a relation field be given a value \<open>v\<close> other than
  \<open>undefined\<close> and \<open>null\<close> that does not have the shape of its kind: a
  \<open>ManyOf\<close> field given something that is no array, or a \<open>OneOf\<close> field given an
  array; and let the test of lines 56-61 return on \<open>v\<close>. Then the parser's step on
  the field never resolves \<open>v\<close> into reference markers:
  \<^item> if \<open>v\<close> passes the test, the step stores \<open>v\<close> unchanged under \<open>key\<close> in
    the properties and records no relation;
  \<^item> otherwise the step first looks the target model's primary key up; it fails with
    what that lookup throws, if it throws, and else stores \<open>v\<close> unchanged in the same
    way.

  Every result of the whole parse holds \<open>v\<close> under \<open>key\<close> in its properties and
  nothing under \<open>key\<close> in its relations. What happens where the test of line 60
  itself throws, on an object whose own \<open>constructor\<close> is \<open>null\<close> or
  \<open>undefined\<close>, is left out of the statement.
\<close>

theorem shape_mismatch_stored:
  assumes "v = exactValueOf initialValues key"
    and "v \<noteq> JUndefined" and "v \<noteq> JNull"
    and "(k = ManyOf \<and> \<not> isArray v) \<or> (k = OneOf \<and> isArray v)"
    and "isPlainValue v = Inr plain"
  shows "(\<forall>acc. parseField findPk dictionary model initialValues acc (key, Relation k m u) =
            (if plain then Inr (acc\<lparr>properties := AList.update key v (properties acc)\<rparr>)
             else case findPk (map_of dictionary m) of
                    Inl msg \<Rightarrow> Inl (ResolverError msg)
                  | Inr pk \<Rightarrow>
                      Inr (acc\<lparr>properties := AList.update key v (properties acc)\<rparr>))) \<and>
         (\<forall>r. distinct (map fst declaration) \<and> (key, Relation k m u) \<in> set declaration \<and>
              parseModelDeclaration findPk dictionary model declaration initialValues = Inr r
            \<longrightarrow> map_of (properties r) key = Some v \<and> map_of (relations r) key = None)"
proof -
  let ?stored = "\<lambda>acc. acc\<lparr>properties := AList.update key v (properties acc)\<rparr>"
  have step: "parseField findPk dictionary model initialValues acc (key, Relation k m u) =
                (if plain then Inr (?stored acc)
                 else case findPk (map_of dictionary m) of
                        Inl msg \<Rightarrow> Inl (ResolverError msg)
                      | Inr pk \<Rightarrow> Inr (?stored acc))" for acc
  proof (cases plain)
    case True
    with assms(5) have "isPlainValue (exactValueOf initialValues key) = Inr True"
      by (simp add: assms(1))
    from parseField_plain[OF _ this, of "Relation k m u"] True show ?thesis
      by (simp add: assms(1))
  next
    case False
    with assms(5) have np: "isPlainValue (exactValueOf initialValues key) = Inr False"
      by (simp add: assms(1))
    from False assms(2,3,5) have t: "truthy (exactValueOf initialValues key)"
      unfolding assms(1)[symmetric] by (cases v) simp_all
    from assms(4) have shape:
      "\<not> (isArray (exactValueOf initialValues key) \<and> k = ManyOf)"
      "\<not> (\<not> isArray (exactValueOf initialValues key) \<and> k = OneOf)"
      unfolding assms(1)[symmetric] by auto
    show ?thesis
      using False np t shape
      by (auto simp: parseField_def propertyKey_def assms(1) Let_def split: sum.splits)
  qed
  have whole: "map_of (properties r) key = Some v \<and> map_of (relations r) key = None"
    if r: "distinct (map fst declaration) \<and> (key, Relation k m u) \<in> set declaration \<and>
           parseModelDeclaration findPk dictionary model declaration initialValues = Inr r" for r
  proof -
    from r obtain acc acc' where
      s: "parseField findPk dictionary model initialValues acc (key, Relation k m u) = Inr acc'"
      and before: "map_of (relations acc) key = None"
      and after: "map_of (properties r) key = map_of (properties acc') key"
                 "map_of (relations r) key = map_of (relations acc') key"
      using parse_reaches_field[of "declaration" key "Relation k m u" findPk dictionary
          model initialValues r]
      by blast
    from s have "acc' = ?stored acc"
      by (auto simp: step split: if_splits sum.splits)
    then show ?thesis by (simp add: after before update_conv')
  qed
  from step whole show ?thesis by blast
qed

text \<open>
  The theorem at \<open>posts: manyOf('post')\<close> given one object and at
  \<open>best: oneOf('post')\<close> given an array, the target model being keyed by \<open>slug\<close>.
\<close>

theorem shape_mismatch_stored_witness:
  "parseModelDeclaration findPrimaryKey
     [(''post'', [(''slug'', PrimaryKey (JStr ''s''))])] ''user''
     [(''id'', PrimaryKey (JStr ''g'')), (''posts'', Relation ManyOf ''post'' False),
      (''best'', Relation OneOf ''post'' False)]
     (Some [(''posts'', JObj [(''slug'', JStr ''a'')]),
            (''best'', JArr [JObj [(''slug'', JStr ''b'')]])]) =
   Inr \<lparr>primaryKey = Some ''id'',
        properties = [(''id'', JStr ''g''), (''posts'', JObj [(''slug'', JStr ''a'')]),
                      (''best'', JArr [JObj [(''slug'', JStr ''b'')]])],
        relations = []\<rparr>"
proof -
  let ?iv = "Some [(''posts'', JObj [(''slug'', JStr ''a'')]),
                   (''best'', JArr [JObj [(''slug'', JStr ''b'')]])]"
  let ?dict = "[(''post'', [(''slug'', PrimaryKey (JStr ''s''))])]"
  have pk: "findPrimaryKey (map_of ?dict ''post'') = Inr (Some ''slug'')"
    by (simp add: findPrimaryKey_def)
  have many: "JObj [(''slug'', JStr ''a'')] = exactValueOf ?iv ''posts''"
    and one: "JArr [JObj [(''slug'', JStr ''b'')]] = exactValueOf ?iv ''best''"
    by (simp_all add: exactValueOf_def)
  have plain: "isPlainValue (JObj [(''slug'', JStr ''a'')]) = Inr False"
    "isPlainValue (JArr [JObj [(''slug'', JStr ''b'')]]) = Inr False"
    by simp_all
  have step1: "\<forall>acc. parseField findPrimaryKey ?dict ''user'' ?iv acc
                  (''posts'', Relation ManyOf ''post'' False) =
                Inr (acc\<lparr>properties :=
                       AList.update ''posts'' (JObj [(''slug'', JStr ''a'')]) (properties acc)\<rparr>)"
    using shape_mismatch_stored[where findPk = findPrimaryKey and m = "''post''"
        and dictionary = ?dict and model = "''user''" and u = False and k = ManyOf,
        OF many _ _ _ plain(1)] pk
    by simp
  have step2: "\<forall>acc. parseField findPrimaryKey ?dict ''user'' ?iv acc
                  (''best'', Relation OneOf ''post'' False) =
                Inr (acc\<lparr>properties :=
                       AList.update ''best'' (JArr [JObj [(''slug'', JStr ''b'')]])
                         (properties acc)\<rparr>)"
    using shape_mismatch_stored[where findPk = findPrimaryKey and m = "''post''"
        and dictionary = ?dict and model = "''user''" and u = False and k = OneOf,
        OF one _ _ _ plain(2)] pk
    by simp
  show ?thesis
    by (simp add: parseModelDeclaration_def emptyParse_def parseField_PrimaryKey truthyKey_def
          step1 step2)
       (simp add: exactValueOf_def)
qed

text \<open>
  Claim C7 as stated fails on an explicit \<open>null\<close>: the \<open>manyOf('post')\<close> field
  \<open>posts\<close> is given \<open>null\<close>, which is no array, and the parse stores nothing but
  fails with \<open>RelationWithoutValue\<close>, line 75 testing the truthiness of the value.
\<close>

theorem shape_mismatch_stored_counterexample:
  "exactValueOf (Some [(''id'', JStr ''u1''), (''posts'', JNull)]) ''posts'' = JNull \<and>
   \<not> isArray JNull \<and>
   parseModelDeclaration findPrimaryKey
     [(''post'', [(''slug'', PrimaryKey (JStr ''s''))])] ''user''
     [(''id'', PrimaryKey (JStr ''g'')), (''posts'', Relation ManyOf ''post'' False)]
     (Some [(''id'', JStr ''u1''), (''posts'', JNull)]) =
   Inl (RelationWithoutValue ''user'' ''posts'')"
  by (simp add: parse_eval)

text \<open>
  The case left out of the statement of claim C7: on an object whose own
  \<open>constructor\<close> is \<open>null\<close> the read of \<open>name\<close> in line 60 throws.
\<close>

lemma constructor_null_throws:
  "parseModelDeclaration findPrimaryKey
     [(''post'', [(''slug'', PrimaryKey (JStr ''s''))])] ''user''
     [(''id'', PrimaryKey (JStr ''g'')), (''posts'', Relation ManyOf ''post'' False)]
     (Some [(''posts'', JObj [(''constructor'', JNull)])]) = Inl TypeError"
  by (simp add: parse_eval)

section \<open>Properties of the REST layer\<close>

subsection \<open>Response codes\<close>

text \<open>
  Claim C2. \<open>getResponseStatusByErrorType\<close> answers \<open>EntityNotFound\<close> with 404,
  \<open>DuplicatePrimaryKey\<close> with 409, \<open>BadRequest\<close> with 400, and every other thrown
  value with 500.
\<close>

theorem response_status_by_error_type:
  "getResponseStatusByErrorType (OperationError EntityNotFound) = 404 \<and>
   getResponseStatusByErrorType (OperationError DuplicatePrimaryKey) = 409 \<and>
   getResponseStatusByErrorType (HTTPError BadRequest m k) = 400 \<and>
   (e \<noteq> OperationError EntityNotFound \<and> e \<noteq> OperationError DuplicatePrimaryKey \<and>
    (\<forall>m' k'. e \<noteq> HTTPError BadRequest m' k') \<longrightarrow>
      getResponseStatusByErrorType e = 500)"
  by (cases e rule: getResponseStatusByErrorType.cases) simp_all

text \<open>
  The theorem at a thrown value without a known type and at an operation error of
  another type.
\<close>

theorem response_status_by_error_type_witness:
  "getResponseStatusByErrorType (OperationError EntityNotFound) = 404 \<and>
   getResponseStatusByErrorType (OperationError DuplicatePrimaryKey) = 409 \<and>
   getResponseStatusByErrorType (HTTPError BadRequest ''user'' ''nme'') = 400 \<and>
   getResponseStatusByErrorType OtherError = 500 \<and>
   getResponseStatusByErrorType (OperationError OtherOperationError) = 500"
  using response_status_by_error_type[of "''user''" "''nme''" OtherError]
    response_status_by_error_type[of "''user''" "''nme''" "OperationError OtherOperationError"]
  by simp

subsection \<open>Filters\<close>










lemmas filters_eval =
  getFilters_def filterParam_def paginationKeys_def declarationMember_def assignFilter_def
  objectPrototypeKeys_def Let_def



text \<open>
  The case left out of the statement of claim C8: the schema declares no
  \<open>constructor\<close>, and \<open>?constructor=x\<close> is turned into a filter, not refused.
\<close>

lemma inherited_name_accepted:
  "map_of [(''id'', PrimaryKey (JStr ''g'')), (''name'', ValueGetter (JStr ''n''))]
     ''constructor'' = None \<and>
   getFilters ''user''
     [(''id'', PrimaryKey (JStr ''g'')), (''name'', ValueGetter (JStr ''n''))]
     [(''constructor'', ''x'')] = Inr [(''constructor'', Equals ''x'')]"
  by (simp add: filters_eval)

subsection \<open>Pagination options\<close>

lemma usableTake_iff:
  "usableTake (map_option parseInt rawTake) \<longleftrightarrow>
     (\<exists>t n. rawTake = Some t \<and> parseInt t = Fin n \<and> n \<noteq> 0)"
  by (cases rawTake; cases "parseInt (the rawTake)")
     (auto simp: usableTake_def isNaN_def)

text \<open>
  Claim C10, as amended. When \<open>getFilters\<close> returns, \<open>findMany\<close> is called with
  options whose \<open>where\<close> is the filters, and
  \<^item> a \<open>take\<close>, \<open>skip\<close> or \<open>cursor\<close> option is present only if the \<open>take\<close>
    parameter parses to a number other than zero;
  \<^item> with such a \<open>take\<close> and a \<open>skip\<close> that parses to a number (\<open>0\<close> when the
    parameter is absent), \<open>take\<close> and \<open>skip\<close> are forwarded;
  \<^item> with such a \<open>take\<close> and a \<open>cursor\<close> parameter that is not empty, \<open>take\<close>
    and \<open>cursor\<close> are forwarded;
  \<^item> a \<open>skip\<close> that does not parse is never forwarded, and neither is an absent or
    empty \<open>cursor\<close>;
  \<^item> when \<open>take\<close> is absent, zero or not a number, the options are the filters alone.
\<close>

theorem pagination_options:
  assumes "getFilters model declaration searchParams = Inr filters"
  shows "\<exists>options. listOptions model declaration searchParams = Inr options \<and>
           opt_where options = filters \<and>
           (opt_take options \<noteq> None \<or> opt_skip options \<noteq> None \<or> opt_cursor options \<noteq> None
              \<longrightarrow> (\<exists>t n. searchParams_get searchParams ''take'' = Some t \<and>
                         parseInt t = Fin n \<and> n \<noteq> 0)) \<and>
           (\<forall>t n s. searchParams_get searchParams ''take'' = Some t \<and> parseInt t = Fin n \<and>
                    n \<noteq> 0 \<and>
                    parseInt (case searchParams_get searchParams ''skip'' of
                                None \<Rightarrow> ''0'' | Some raw \<Rightarrow> raw) = Fin s
              \<longrightarrow> opt_take options = Some (Fin n) \<and> opt_skip options = Some (Fin s)) \<and>
           (\<forall>t n c. searchParams_get searchParams ''take'' = Some t \<and> parseInt t = Fin n \<and>
                    n \<noteq> 0 \<and> searchParams_get searchParams ''cursor'' = Some c \<and> c \<noteq> []
              \<longrightarrow> opt_take options = Some (Fin n) \<and> opt_cursor options = Some c) \<and>
           (parseInt (case searchParams_get searchParams ''skip'' of
                        None \<Rightarrow> ''0'' | Some raw \<Rightarrow> raw) = NaN
              \<longrightarrow> opt_skip options = None) \<and>
           (searchParams_get searchParams ''cursor'' = None \<or>
            searchParams_get searchParams ''cursor'' = Some []
              \<longrightarrow> opt_cursor options = None) \<and>
           (\<not> (\<exists>t n. searchParams_get searchParams ''take'' = Some t \<and>
                      parseInt t = Fin n \<and> n \<noteq> 0)
              \<longrightarrow> options = \<lparr>opt_where = filters, opt_take = None, opt_skip = None,
                              opt_cursor = None\<rparr>)"
proof -
  let ?take = "map_option parseInt (searchParams_get searchParams ''take'')"
  let ?skip = "parseInt (case searchParams_get searchParams ''skip'' of
                           None \<Rightarrow> ''0'' | Some raw \<Rightarrow> raw)"
  let ?cursor = "searchParams_get searchParams ''cursor''"
  let ?o0 = "\<lparr>opt_where = filters, opt_take = None, opt_skip = None, opt_cursor = None\<rparr>"
  let ?o1 = "if usableTake ?take \<and> \<not> isNaN ?skip
             then ?o0\<lparr>opt_take := ?take, opt_skip := Some ?skip\<rparr> else ?o0"
  let ?o2 = "if usableTake ?take \<and> ?cursor \<noteq> None \<and> ?cursor \<noteq> Some []
             then ?o1\<lparr>opt_take := ?take, opt_cursor := ?cursor\<rparr> else ?o1"
  have take_eq: "(case searchParams_get searchParams ''take'' of
                    None \<Rightarrow> None | Some t \<Rightarrow> Some (parseInt t)) = ?take"
    by (simp split: option.splits)
  have run: "listOptions model declaration searchParams = Inr ?o2"
    unfolding listOptions_def Let_def assms take_eq sum.case ..
  show ?thesis
  proof (cases "usableTake ?take")
    case False
    then have no: "\<not> (\<exists>t n. searchParams_get searchParams ''take'' = Some t \<and>
                            parseInt t = Fin n \<and> n \<noteq> 0)"
      by (simp add: usableTake_iff)
    from False have "?o2 = ?o0" by simp
    with run no show ?thesis by auto
  next
    case True
    then obtain t n where t: "searchParams_get searchParams ''take'' = Some t"
      "parseInt t = Fin n" "n \<noteq> 0"
      by (auto simp: usableTake_iff)
    show ?thesis
      by (rule exI[of _ ?o2]) (use run True t in \<open>auto simp: isNaN_def\<close>)
  qed
qed

lemmas options_eval =
  listOptions_def searchParams_get_def usableTake_def isNaN_def parseInt_def isWhiteSpace_def
  isDigit_def digitsValue_def filters_eval

text \<open>
  The theorem at \<open>?name=a&take=2&skip=1&cursor=u7\<close> and at the same query with
  \<open>take=0\<close>.
\<close>

theorem pagination_options_witness:
  "listOptions ''user''
     [(''id'', PrimaryKey (JStr ''g'')), (''name'', ValueGetter (JStr ''n''))]
     [(''name'', ''a''), (''take'', ''2''), (''skip'', ''1''), (''cursor'', ''u7'')] =
     Inr \<lparr>opt_where = [(''name'', Equals ''a'')], opt_take = Some (Fin 2),
          opt_skip = Some (Fin 1), opt_cursor = Some ''u7''\<rparr> \<and>
   listOptions ''user''
     [(''id'', PrimaryKey (JStr ''g'')), (''name'', ValueGetter (JStr ''n''))]
     [(''name'', ''a''), (''take'', ''0''), (''skip'', ''1''), (''cursor'', ''u7'')] =
     Inr \<lparr>opt_where = [(''name'', Equals ''a'')], opt_take = None,
          opt_skip = None, opt_cursor = None\<rparr>"
proof -
  let ?decl = "[(''id'', PrimaryKey (JStr ''g'')), (''name'', ValueGetter (JStr ''n''))]"
  have f1: "getFilters ''user'' ?decl
              [(''name'', ''a''), (''take'', ''2''), (''skip'', ''1''), (''cursor'', ''u7'')] =
            Inr [(''name'', Equals ''a'')]"
    and f2: "getFilters ''user'' ?decl
              [(''name'', ''a''), (''take'', ''0''), (''skip'', ''1''), (''cursor'', ''u7'')] =
            Inr [(''name'', Equals ''a'')]"
    by (simp_all add: filters_eval)
  have take2: "parseInt ''2'' = Fin 2" and skip1: "parseInt ''1'' = Fin 1"
    and take0: "parseInt ''0'' = Fin 0"
    by (simp_all add: parseInt_def isWhiteSpace_def isDigit_def digitsValue_def)
  from pagination_options[OF f1] obtain o1 where
    o1: "listOptions ''user'' ?decl
           [(''name'', ''a''), (''take'', ''2''), (''skip'', ''1''), (''cursor'', ''u7'')] = Inr o1"
    and "opt_where o1 = [(''name'', Equals ''a'')]"
    and "opt_take o1 = Some (Fin 2) \<and> opt_skip o1 = Some (Fin 1)"
    and "opt_cursor o1 = Some ''u7''"
    by (auto simp: searchParams_get_def take2 skip1)
  then have r1: "o1 = \<lparr>opt_where = [(''name'', Equals ''a'')], opt_take = Some (Fin 2),
                       opt_skip = Some (Fin 1), opt_cursor = Some ''u7''\<rparr>"
    by (cases o1) simp
  from pagination_options[OF f2] obtain o2 where
    o2: "listOptions ''user'' ?decl
           [(''name'', ''a''), (''take'', ''0''), (''skip'', ''1''), (''cursor'', ''u7'')] = Inr o2"
    and "o2 = \<lparr>opt_where = [(''name'', Equals ''a'')], opt_take = None, opt_skip = None,
                opt_cursor = None\<rparr>"
    by (auto simp: searchParams_get_def take0)
  with o1 r1 show ?thesis by simp
qed

text \<open>
  Claim C10 as stated fails on an empty cursor: \<open>?take=1&cursor=\<close> has a \<open>take\<close>
  that parses to 1 and a \<open>cursor\<close> parameter, and no \<open>cursor\<close> is forwarded,
  because line 138 tests the truthiness of the cursor string.
\<close>

theorem pagination_options_counterexample:
  "searchParams_get [(''take'', ''1''), (''cursor'', [])] ''take'' = Some ''1'' \<and>
   parseInt ''1'' = Fin 1 \<and>
   searchParams_get [(''take'', ''1''), (''cursor'', [])] ''cursor'' = Some [] \<and>
   listOptions ''user''
     [(''id'', PrimaryKey (JStr ''g'')), (''name'', ValueGetter (JStr ''n''))]
     [(''take'', ''1''), (''cursor'', [])] =
     Inr \<lparr>opt_where = [], opt_take = Some (Fin 1), opt_skip = Some (Fin 0),
          opt_cursor = None\<rparr>"
  by (simp add: options_eval)

subsection \<open>Internal properties\<close>

lemma stripEntries_frame:
  assumes "stripEntries es result = Inr out" and "k \<notin> fst ` set es"
  shows "map_of out k = map_of result k"
  using assms
proof (induction es arbitrary: result)
  case Nil
  then show ?case by simp
next
  case (Cons p es)
  obtain key "value" where p: "p = (key, value)" by (cases p)
  from Cons.prems(2) have k: "k \<noteq> key" "k \<notin> fst ` set es" by (auto simp: p)
  from Cons.prems(1) obtain result' where
    rest: "stripEntries es result' = Inr out"
    and same: "map_of result' k = map_of result k"
    using k(1)
    by (auto simp: p update_conv' split: if_splits sum.splits bool.splits)
  from Cons.IH[OF rest k(2)] same show ?case by simp
qed

lemma stripEntries_keys:
  assumes "stripEntries es result = Inr out"
  shows "fst ` set out = fst ` set result \<union> {k \<in> fst ` set es. \<not> internalKey k}"
  using assms
proof (induction es arbitrary: result)
  case Nil
  then show ?case by simp
next
  case (Cons p es)
  obtain key "value" where p: "p = (key, value)" by (cases p)
  show ?case
  proof (cases "internalKey key")
    case True
    with Cons.prems have "stripEntries es result = Inr out" by (simp add: p)
    from Cons.IH[OF this] True show ?thesis by (auto simp: p)
  next
    case False
    with Cons.prems obtain w where "stripEntries es (AList.update key w result) = Inr out"
      by (auto simp: p split: if_splits sum.splits bool.splits)
    from Cons.IH[OF this] False show ?thesis by (auto simp: p dom_update)
  qed
qed

lemma stripElements_elementwise:
  assumes "stripElements vs acc = Inr out"
  shows "\<exists>ws. out = acc @ ws \<and> list_all2 strippedElement vs ws"
  using assms
proof (induction vs arbitrary: acc)
  case Nil
  then show ?case by simp
next
  case (Cons v vs)
  from Cons.prems obtain w where
    rest: "stripElements vs (acc @ [w]) = Inr out" and w: "strippedElement v w"
    by (auto simp: strippedElement_def removeInternalProperties_def
             split: sum.splits bool.splits)
  from Cons.IH[OF rest] obtain ws where "out = (acc @ [w]) @ ws" "list_all2 strippedElement vs ws"
    by blast
  with w have "out = acc @ (w # ws) \<and> list_all2 strippedElement (v # vs) (w # ws)" by simp
  then show ?case by blast
qed

lemma stripEntries_value:
  assumes "stripEntries es result = Inr out" and "distinct (map fst es)"
    and "(k, v) \<in> set es" and "\<not> internalKey k"
  shows "(isInternalEntity v = Inr True \<longrightarrow>
            (\<exists>s. removeInternalProperties (entries v) = Inr s \<and> map_of out k = Some (JObj s))) \<and>
         (isInternalEntity v = Inr False \<and> isArray v \<longrightarrow>
            (\<exists>ws. map_of out k = Some (JArr ws) \<and> list_all2 strippedElement (elements v) ws)) \<and>
         (isInternalEntity v = Inr False \<and> \<not> isArray v \<longrightarrow> map_of out k = Some v)"
  using assms
proof (induction es arbitrary: result)
  case Nil
  then show ?case by simp
next
  case (Cons p es)
  obtain key "value" where p: "p = (key, value)" by (cases p)
  from Cons.prems(2) have d: "key \<notin> fst ` set es" "distinct (map fst es)" by (auto simp: p)
  show ?case
  proof (cases "(k, v) \<in> set es")
    case True
    from Cons.prems(1) obtain result' where "stripEntries es result' = Inr out"
      by (auto simp: p split: if_splits sum.splits bool.splits)
    from Cons.IH[OF this d(2) True Cons.prems(4)] show ?thesis .
  next
    case False
    with Cons.prems(3) have kv: "key = k" "value = v" by (auto simp: p)
    from d(1) kv have notin: "k \<notin> fst ` set es" by simp
    show ?thesis
    proof (intro conjI impI)
      assume e: "isInternalEntity v = Inr True"
      with Cons.prems(1,4) obtain s where s: "stripEntries (entries v) [] = Inr s"
        and rest: "stripEntries es (AList.update k (JObj s) result) = Inr out"
        by (auto simp: p kv split: sum.splits)
      from stripEntries_frame[OF rest notin] s
      show "\<exists>s. removeInternalProperties (entries v) = Inr s \<and> map_of out k = Some (JObj s)"
        by (simp add: removeInternalProperties_def update_conv')
    next
      assume e: "isInternalEntity v = Inr False \<and> isArray v"
      with Cons.prems(1,4) obtain ws where ws: "stripElements (elements v) [] = Inr ws"
        and rest: "stripEntries es (AList.update k (JArr ws) result) = Inr out"
        by (auto simp: p kv split: sum.splits)
      from stripElements_elementwise[OF ws] have "list_all2 strippedElement (elements v) ws"
        by simp
      with stripEntries_frame[OF rest notin]
      show "\<exists>ws. map_of out k = Some (JArr ws) \<and> list_all2 strippedElement (elements v) ws"
        by (auto simp: update_conv')
    next
      assume e: "isInternalEntity v = Inr False \<and> \<not> isArray v"
      with Cons.prems(1,4) have rest: "stripEntries es (AList.update k v result) = Inr out"
        by (auto simp: p kv)
      from stripEntries_frame[OF rest notin]
      show "map_of out k = Some v" by (simp add: update_conv')
    qed
  qed
qed

text \<open>
  \<open>removeInternalProperties\<close> throws on a \<open>null\<close> it inspects, and returns a
  result whenever its argument contains no \<open>null\<close>.
\<close>

lemma isInternalEntity_returns:
  "\<not> containsNull v \<Longrightarrow> \<exists>b. isInternalEntity v = Inr b"
  by (cases v) auto

lemma entries_nullfree:
  "\<not> containsNull v \<Longrightarrow> \<forall>p\<in>set (entries v). \<not> containsNull (snd p)"
  by (cases v) (simp_all add: list_ex_iff)

lemma elements_nullfree:
  "\<not> containsNull v \<Longrightarrow> \<forall>w\<in>set (elements v). \<not> containsNull w"
  by (cases v) (simp_all add: list_ex_iff)

lemma strip_returns:
  "(\<forall>p\<in>set es. \<not> containsNull (snd p)) \<longrightarrow> (\<exists>out. stripEntries es result = Inr out)"
  "(\<forall>v\<in>set vs. \<not> containsNull v) \<longrightarrow> (\<exists>out. stripElements vs acc = Inr out)"
proof (induction es result and vs acc rule: stripEntries_stripElements.induct)
  case (1 result)
  then show ?case by simp
next
  case (2 key "value" rest result)
  show ?case
  proof
    assume nf: "\<forall>p\<in>set ((key, value) # rest). \<not> containsNull (snd p)"
    then have v: "\<not> containsNull value" and r: "\<forall>p\<in>set rest. \<not> containsNull (snd p)"
      by simp_all
    show "\<exists>out. stripEntries ((key, value) # rest) result = Inr out"
    proof (cases "internalKey key")
      case True
      with 2(1) r show ?thesis by simp
    next
      case False
      from isInternalEntity_returns[OF v] obtain b where b: "isInternalEntity value = Inr b"
        by blast
      show ?thesis
      proof (cases b)
        case True
        then have bt: "b = True" by simp
        from 2(2)[OF False b bt] entries_nullfree[OF v]
        obtain s where s: "stripEntries (entries value) [] = Inr s" by blast
        from 2(3)[OF False b bt s] r show ?thesis
          using False b True s by simp
      next
        case bf: False
        then have nb: "b = False" by simp
        show ?thesis
        proof (cases "isArray value")
          case True
          from 2(4)[OF False b nb True] elements_nullfree[OF v]
          obtain ws where ws: "stripElements (elements value) [] = Inr ws" by blast
          from 2(5)[OF False b nb True ws] r show ?thesis
            using False b bf True ws by simp
        next
          case na: False
          from 2(6)[OF False b nb na] r show ?thesis
            using False b bf na by simp
        qed
      qed
    qed
  qed
next
  case (3 acc)
  then show ?case by simp
next
  case (4 reletionalEntity rest acc)
  show ?case
  proof
    assume nf: "\<forall>v\<in>set (reletionalEntity # rest). \<not> containsNull v"
    then have v: "\<not> containsNull reletionalEntity" and r: "\<forall>v\<in>set rest. \<not> containsNull v"
      by simp_all
    from isInternalEntity_returns[OF v] obtain b where
      b: "isInternalEntity reletionalEntity = Inr b" by blast
    show "\<exists>out. stripElements (reletionalEntity # rest) acc = Inr out"
    proof (cases b)
      case True
      then have bt: "b = True" by simp
      from 4(1)[OF b bt] entries_nullfree[OF v]
      obtain s where s: "stripEntries (entries reletionalEntity) [] = Inr s" by blast
      from 4(2)[OF b bt s] r show ?thesis
        using b True s by simp
    next
      case False
      then have bf: "b = False" by simp
      from 4(3)[OF b bf] r show ?thesis
        using b False by simp
    qed
  qed
qed

lemma removeInternalProperties_returns:
  "\<not> containsNull (JObj entity) \<Longrightarrow> \<exists>out. removeInternalProperties entity = Inr out"
  using strip_returns(1)[of entity "[]"]
  by (simp add: removeInternalProperties_def list_ex_iff)

lemma removeInternalProperties_null:
  "removeInternalProperties [(''name'', JNull)] = Inl TypeError"
  by (simp add: removeInternalProperties_def internalKey_def)

text \<open>
  Claim C9, as amended. Whenever \<open>removeInternalProperties\<close> returns a result for an
  entity, the keys of the result are the keys of the entity that do not begin with
  \<open>__\<close>, and under each such key (the keys of an object being distinct)
  \<^item> a value that is an internal entity is replaced by what
    \<open>removeInternalProperties\<close> returns for it, so that the same holds of it in turn;
  \<^item> an array is replaced by an array of the same length in which each element that
    is an internal entity is replaced in the same way and every other element is kept;
  \<^item> every other value is kept as it is, whatever keys it holds inside.
\<close>

theorem internal_properties_removed:
  assumes "removeInternalProperties entity = Inr out"
  shows "fst ` set out = {k \<in> fst ` set entity. \<not> internalKey k} \<and>
         (distinct (map fst entity) \<longrightarrow>
            (\<forall>p\<in>set entity. \<not> internalKey (fst p) \<longrightarrow>
               (isInternalEntity (snd p) = Inr True \<longrightarrow>
                  (\<exists>s. removeInternalProperties (entries (snd p)) = Inr s \<and>
                       map_of out (fst p) = Some (JObj s))) \<and>
               (isInternalEntity (snd p) = Inr False \<and> isArray (snd p) \<longrightarrow>
                  (\<exists>ws. map_of out (fst p) = Some (JArr ws) \<and>
                        list_all2 strippedElement (elements (snd p)) ws)) \<and>
               (isInternalEntity (snd p) = Inr False \<and> \<not> isArray (snd p) \<longrightarrow>
                  map_of out (fst p) = Some (snd p))))"
proof -
  from assms have run: "stripEntries entity [] = Inr out"
    by (simp add: removeInternalProperties_def)
  from stripEntries_keys[OF run]
  have keys: "fst ` set out = {k \<in> fst ` set entity. \<not> internalKey k}" by simp
  have vals: "(isInternalEntity (snd p) = Inr True \<longrightarrow>
                 (\<exists>s. removeInternalProperties (entries (snd p)) = Inr s \<and>
                      map_of out (fst p) = Some (JObj s))) \<and>
              (isInternalEntity (snd p) = Inr False \<and> isArray (snd p) \<longrightarrow>
                 (\<exists>ws. map_of out (fst p) = Some (JArr ws) \<and>
                       list_all2 strippedElement (elements (snd p)) ws)) \<and>
              (isInternalEntity (snd p) = Inr False \<and> \<not> isArray (snd p) \<longrightarrow>
                 map_of out (fst p) = Some (snd p))"
    if d: "distinct (map fst entity)" and p: "p \<in> set entity" "\<not> internalKey (fst p)" for p
  proof -
    from p(1) have "(fst p, snd p) \<in> set entity" by simp
    from stripEntries_value[OF run d this p(2)] show ?thesis .
  qed
  from keys vals show ?thesis by blast
qed

lemmas strip_eval = removeInternalProperties_def internalKey_def

text \<open>
  The theorem at a user with a related user and an array holding a post and a string.
\<close>

theorem internal_properties_removed_witness:
  "removeInternalProperties
     [(''__type'', JStr ''user''), (''__primaryKey'', JStr ''id''), (''id'', JStr ''u1''),
      (''friend'', JObj [(''__type'', JStr ''user''), (''__primaryKey'', JStr ''id''),
                          (''id'', JStr ''u2'')]),
      (''posts'', JArr [JObj [(''__type'', JStr ''post''), (''slug'', JStr ''p1'')],
                        JStr ''draft''])] =
   Inr [(''id'', JStr ''u1''), (''friend'', JObj [(''id'', JStr ''u2'')]),
        (''posts'', JArr [JObj [(''slug'', JStr ''p1'')], JStr ''draft''])] \<and>
   fst ` set [(''id'', JStr ''u1''), (''friend'', JObj [(''id'', JStr ''u2'')]),
        (''posts'', JArr [JObj [(''slug'', JStr ''p1'')], JStr ''draft''])] =
     {''id'', ''friend'', ''posts''} \<and>
   \<not> hasInternalKey (JObj [(''id'', JStr ''u1''), (''friend'', JObj [(''id'', JStr ''u2'')]),
        (''posts'', JArr [JObj [(''slug'', JStr ''p1'')], JStr ''draft''])])"
proof -
  have run: "removeInternalProperties
     [(''__type'', JStr ''user''), (''__primaryKey'', JStr ''id''), (''id'', JStr ''u1''),
      (''friend'', JObj [(''__type'', JStr ''user''), (''__primaryKey'', JStr ''id''),
                          (''id'', JStr ''u2'')]),
      (''posts'', JArr [JObj [(''__type'', JStr ''post''), (''slug'', JStr ''p1'')],
                        JStr ''draft''])] =
   Inr [(''id'', JStr ''u1''), (''friend'', JObj [(''id'', JStr ''u2'')]),
        (''posts'', JArr [JObj [(''slug'', JStr ''p1'')], JStr ''draft''])]"
    by (simp add: strip_eval)
  from internal_properties_removed[OF run] run show ?thesis
    by (simp add: internalKey_def)
qed

text \<open>
  Claim C9 as stated fails below a value that is no internal entity: the object under
  \<open>meta\<close> carries no \<open>__type\<close>, so it is copied as it is, and the result holds
  the key \<open>__v\<close> at depth two.
\<close>

theorem internal_properties_removed_counterexample:
  "removeInternalProperties
     [(''__type'', JStr ''user''), (''id'', JStr ''u1''),
      (''meta'', JObj [(''__v'', JNum (Fin 1))])] =
   Inr [(''id'', JStr ''u1''), (''meta'', JObj [(''__v'', JNum (Fin 1))])] \<and>
   hasInternalKey (JObj [(''id'', JStr ''u1''), (''meta'', JObj [(''__v'', JNum (Fin 1))])])"
  by (simp add: strip_eval)

end
